theory Spec2Isabelle
  imports Main "HOL-Library.Sublist"
begin

section \<open>Python values used by setup.py\<close>

text \<open>
  A Python \<open>str\<close> is a sequence of Unicode code points. Isabelle's \<open>char\<close> is a byte, so a
  string is modelled as the list of its code points; \<open>u\<close> turns an ASCII literal into one.
\<close>

type_synonym pystr = "nat list"

definition u :: "string \<Rightarrow> pystr" where
  "u s = map of_char s"

text \<open>\<open>needle in hay\<close> on strings: some position of \<open>hay\<close> starts with \<open>needle\<close>.\<close>

fun py_in :: "pystr \<Rightarrow> pystr \<Rightarrow> bool" where
  "py_in needle [] = (needle = [])"
| "py_in needle (c # cs) = (prefix needle (c # cs) \<or> py_in needle cs)"

text \<open>
  \<open>s.split(sep)\<close>: the fields between the non-overlapping occurrences of \<open>sep\<close>, found
  from the left. \<open>cur\<close> is the field being read. Python raises ValueError for an empty
  separator; both separators of setup.py are non-empty literals, and \<open>split_from\<close> treats an
  empty one as never matching.
\<close>

function split_from :: "pystr \<Rightarrow> pystr \<Rightarrow> pystr \<Rightarrow> pystr list" where
  "split_from sep cur [] = [cur]"
| "split_from sep cur (c # cs) =
     (if sep \<noteq> [] \<and> prefix sep (c # cs)
      then cur # split_from sep [] (drop (length sep) (c # cs))
      else split_from sep (cur @ [c]) cs)"
  by pat_completeness auto
termination
  by (relation "measure (\<lambda>(sep, cur, s). length s)") auto

definition py_split :: "pystr \<Rightarrow> pystr \<Rightarrow> pystr list" where
  "py_split s sep = split_from sep [] s"

text \<open>
  \<open>str.isspace\<close> on one code point, which is what \<open>s.strip()\<close> removes from both ends:
  the characters Unicode classifies as whitespace.
\<close>

definition py_isspace :: "nat \<Rightarrow> bool" where
  "py_isspace c =
     ((0x09 \<le> c \<and> c \<le> 0x0D) \<or> (0x1C \<le> c \<and> c \<le> 0x20) \<or> c = 0x85 \<or> c = 0xA0
      \<or> c = 0x1680 \<or> (0x2000 \<le> c \<and> c \<le> 0x200A) \<or> c = 0x2028 \<or> c = 0x2029
      \<or> c = 0x202F \<or> c = 0x205F \<or> c = 0x3000)"

definition strip_where :: "(nat \<Rightarrow> bool) \<Rightarrow> pystr \<Rightarrow> pystr" where
  "strip_where p s = rev (dropWhile p (rev (dropWhile p s)))"

text \<open>\<open>s.strip()\<close> and \<open>s.strip(chars)\<close>.\<close>

definition py_strip :: "pystr \<Rightarrow> pystr" where
  "py_strip s = strip_where py_isspace s"

definition py_strip_chars :: "pystr \<Rightarrow> pystr \<Rightarrow> pystr" where
  "py_strip_chars s chars = strip_where (\<lambda>c. c \<in> set chars) s"

text \<open>\<open>str(n)\<close> for an integer, as an f-string renders it: decimal digits, a sign if negative.\<close>

fun digits :: "nat \<Rightarrow> pystr" where
  "digits n = (if n < 10 then [48 + n] else digits (n div 10) @ [48 + n mod 10])"

declare digits.simps [simp del]

definition str_int :: "int \<Rightarrow> pystr" where
  "str_int i = (if i < 0 then 45 # digits (nat (- i)) else digits (nat i))"

text \<open>
  Comparison \<open>a >= b\<close> of two tuples of integers: the first position where they differ
  decides, and a tuple that is a proper extension of the other is the greater one.
\<close>

fun tuple_ge :: "int list \<Rightarrow> int list \<Rightarrow> bool" where
  "tuple_ge _ [] = True"
| "tuple_ge [] (_ # _) = False"
| "tuple_ge (x # xs) (y # ys) = (if x = y then tuple_ge xs ys else y < x)"

section \<open>Effects, exceptions and the environment\<close>

text \<open>
  The exceptions the script can meet. Each carries the text \<open>str(e)\<close> gives. All are
  subclasses of \<open>Exception\<close>; asynchronous interrupts are outside the model.
  \<open>OtherException\<close> stands for every class the script does not name, such as
  PermissionError and UnicodeEncodeError.
\<close>

datatype exn = FileNotFoundError pystr | IndexError pystr | OtherException pystr

fun exn_str :: "exn \<Rightarrow> pystr" where
  "exn_str (FileNotFoundError m) = m"
| "exn_str (IndexError m) = m"
| "exn_str (OtherException m) = m"

text \<open>
  Every call that reaches outside the process is recorded, in program order, as an event.
  A computation yields the events it performed and either a value or a raised exception.
\<close>

datatype event =
    Print pystr
  | Sys_version_info
  | Subprocess_shell pystr
  | Subprocess_argv "pystr list"
  | Profiles_exists
  | Profiles_read
  | Os_path_exists pystr

datatype 'a outcome = Return 'a | Raise exn

type_synonym 'a run = "event list \<times> 'a outcome"

definition ret :: "'a \<Rightarrow> 'a run" where
  "ret a = ([], Return a)"

definition raise :: "exn \<Rightarrow> 'a run" where
  "raise e = ([], Raise e)"

text \<open>Sequencing: an exception raised by the first part skips the rest.\<close>

definition bind_run :: "'a run \<Rightarrow> ('a \<Rightarrow> 'b run) \<Rightarrow> 'b run" where
  "bind_run m f =
     (case snd m of
        Raise e \<Rightarrow> (fst m, Raise e)
      | Return a \<Rightarrow> (fst m @ fst (f a), snd (f a)))"

text \<open>\<open>try: m except Exception as e: h e\<close>.\<close>

definition try_except :: "'a run \<Rightarrow> (exn \<Rightarrow> 'a run) \<Rightarrow> 'a run" where
  "try_except m h =
     (case snd m of
        Raise e \<Rightarrow> (fst m @ fst (h e), snd (h e))
      | Return a \<Rightarrow> m)"


text \<open>
  \<open>subprocess.CompletedProcess\<close> with \<open>capture_output=True, text=True\<close>, and
  \<open>sys.version_info\<close> (its last two components, release level and serial, are never
  reached by the comparison with a pair).
\<close>

record completed =
  returncode :: int
  stdout :: pystr
  stderr :: pystr

record version =
  major :: int
  minor :: int
  micro :: int

text \<open>
  The environment of one run: what each outside call answers. The script makes each of
  these calls at most once per argument, so one answer per call describes a run.
  \<^item> \<open>shell_result c\<close>: \<open>subprocess.run(c, shell=True, ...)\<close>, a completed process or an
    exception;
  \<^item> \<open>argv_result a\<close>: \<open>subprocess.run(a, ...)\<close> with an argument list;
  \<^item> \<open>profiles_exists\<close>: \<open>Path(".dbt/profiles.yml").exists()\<close>, an answer or an
    exception;
  \<^item> \<open>profiles_read\<close>: opening and reading that file, its text or an exception;
  \<^item> \<open>path_exists p\<close>: \<open>os.path.exists(p)\<close>, which answers \<open>False\<close> on any error;
  \<^item> \<open>print_error s\<close>: the exception \<open>print(s)\<close> raises, if standard output rejects
    the text (an encoding that lacks a character, a closed stream).
  The existence test of the configuration file is \<open>Path.exists\<close>, which answers \<open>False\<close>
  when the file or a directory on the way is missing and raises on other errors, such as
  a directory that may not be searched. Every external command comes back, with a
  completed process or with an exception.
\<close>

record world =
  version_info :: version
  shell_result :: "pystr \<Rightarrow> exn + completed"
  argv_result :: "pystr list \<Rightarrow> exn + completed"
  profiles_exists :: "exn + bool"
  profiles_read :: "exn + pystr"
  path_exists :: "pystr \<Rightarrow> bool"
  print_error :: "pystr \<Rightarrow> exn option"

definition of_result :: "exn + 'a \<Rightarrow> 'a outcome" where
  "of_result r = (case r of Inl e \<Rightarrow> Raise e | Inr a \<Rightarrow> Return a)"

text \<open>\<open>print(s)\<close>: the text is handed to standard output, which takes it or raises.\<close>

definition print :: "world \<Rightarrow> pystr \<Rightarrow> unit run" where
  "print w s = ([Print s], case print_error w s of None \<Rightarrow> Return () | Some e \<Rightarrow> Raise e)"

definition sys_version_info :: "world \<Rightarrow> version run" where
  "sys_version_info w = ([Sys_version_info], Return (version_info w))"

definition subprocess_run_shell :: "world \<Rightarrow> pystr \<Rightarrow> completed run" where
  "subprocess_run_shell w command = ([Subprocess_shell command], of_result (shell_result w command))"

definition subprocess_run_argv :: "world \<Rightarrow> pystr list \<Rightarrow> completed run" where
  "subprocess_run_argv w args = ([Subprocess_argv args], of_result (argv_result w args))"

definition profiles_file_exists :: "world \<Rightarrow> bool run" where
  "profiles_file_exists w = ([Profiles_exists], of_result (profiles_exists w))"

definition read_profiles :: "world \<Rightarrow> pystr run" where
  "read_profiles w = ([Profiles_read], of_result (profiles_read w))"

definition os_path_exists :: "world \<Rightarrow> pystr \<Rightarrow> bool run" where
  "os_path_exists w p = ([Os_path_exists p], Return (path_exists w p))"

text \<open>\<open>xs[i]\<close> raises IndexError out of range.\<close>

definition py_index :: "'a list \<Rightarrow> nat \<Rightarrow> 'a run" where
  "py_index xs i =
     (if i < length xs then ret (xs ! i) else raise (IndexError (u ''list index out of range'')))"

section \<open>The functions of setup.py\<close>

text \<open>\<open>print_header\<close> (lines 12-16).\<close>

definition print_header :: "world \<Rightarrow> pystr \<Rightarrow> unit run" where
  "print_header w title =
     bind_run (print w (10 # replicate 60 61)) (\<lambda>_.
     bind_run (print w (u ''  '' @ title)) (\<lambda>_.
     print w (replicate 60 61)))"

text \<open>\<open>run_command\<close> (lines 18-32).\<close>

definition run_command :: "world \<Rightarrow> pystr \<Rightarrow> pystr \<Rightarrow> bool run" where
  "run_command w command description =
     bind_run (print w ([10, 0x1F504, 32] @ description @ u ''...'')) (\<lambda>_.
     try_except
       (bind_run (subprocess_run_shell w command) (\<lambda>result.
          if returncode result = 0
          then bind_run (print w ([0x2705, 32] @ description @ u '' completed successfully'')) (\<lambda>_.
               ret True)
          else bind_run (print w ([0x274C, 32] @ description @ u '' failed:'')) (\<lambda>_.
               bind_run (print w (stderr result)) (\<lambda>_.
               ret False))))
       (\<lambda>e. bind_run (print w ([0x274C, 32] @ u ''Error during '' @ description @ u '': '' @ exn_str e)) (\<lambda>_.
            ret False)))"

text \<open>
  \<open>check_database_file\<close> (lines 34-61). \<open>scan_lines\<close> is the \<open>for\<close> loop of lines 46-50:
  it yields the value \<open>db_file\<close> has when the loop ends, the first matching line ending
  the loop.
\<close>

definition quote_chars :: pystr where
  "quote_chars = [39, 34]"

fun scan_lines :: "pystr \<Rightarrow> pystr list \<Rightarrow> pystr run" where
  "scan_lines db_file [] = ret db_file"
| "scan_lines db_file (line # rest) =
     (if py_in (u ''path:'') line \<and> py_in (u ''.duckdb'') line
      then bind_run (py_index (py_split line (u ''path:'')) 1) (\<lambda>field.
           let db_path = py_strip_chars (py_strip field) quote_chars in
           ret db_path)
      else scan_lines db_file rest)"

text \<open>
  Lines 41-52, the \<open>try\<close> statement: it yields the value \<open>db_file\<close> has after it. The
  handler of line 51 is \<open>pass\<close>, and no statement of the \<open>try\<close> block can raise after the
  assignment to \<open>db_file\<close>, so after an exception \<open>db_file\<close> still holds the value it
  had before.
\<close>

definition scan_profiles :: "world \<Rightarrow> pystr \<Rightarrow> pystr run" where
  "scan_profiles w db_file =
     try_except
       (bind_run (read_profiles w) (\<lambda>content.
          if py_in (u ''path:'') content
          then scan_lines db_file (py_split content [10])
          else ret db_file))
       (\<lambda>e. ret db_file)"

text \<open>
  Lines 36-52: the path that line 54 will look for. The existence test of line 39 stands
  before the \<open>try\<close>, so an exception it raises leaves the function.
\<close>

definition resolve_db_file :: "world \<Rightarrow> pystr run" where
  "resolve_db_file w =
     (let db_file = u ''facebook_pages_pipeline.duckdb'' in
      bind_run (profiles_file_exists w) (\<lambda>found.
      if found then scan_profiles w db_file else ret db_file))"

definition check_database_file :: "world \<Rightarrow> bool run" where
  "check_database_file w =
     bind_run (resolve_db_file w) (\<lambda>db_file.
     bind_run (os_path_exists w db_file) (\<lambda>found.
     if found
     then bind_run (print w ([0x2705, 32] @ u ''Database file found: '' @ db_file)) (\<lambda>_.
          ret True)
     else bind_run (print w ([0x26A0, 0xFE0F, 32, 32] @ u ''Database file not found: '' @ db_file)) (\<lambda>_.
          bind_run (print w (u ''   Make sure to run the DLT extraction pipeline first!'')) (\<lambda>_.
          bind_run (print w (u ''   See: https://github.com/your-org/dlt-facebook-pages'')) (\<lambda>_.
          ret False)))))"

text \<open>\<open>check_dbt_connection\<close> (lines 63-81).\<close>

definition check_dbt_connection :: "world \<Rightarrow> bool run" where
  "check_dbt_connection w =
     bind_run (print w ([10, 0x1F504, 32] @ u ''Testing dbt database connection...'')) (\<lambda>_.
     try_except
       (bind_run (subprocess_run_argv w [u ''dbt'', u ''debug'']) (\<lambda>result.
          if py_in (u ''All checks passed!'') (stdout result)
          then bind_run (print w ([0x2705, 32] @ u ''dbt connection test passed'')) (\<lambda>_.
               ret True)
          else bind_run (print w ([0x274C, 32] @ u ''dbt connection test failed:'')) (\<lambda>_.
               bind_run (print w (stdout result)) (\<lambda>_.
               bind_run (print w (stderr result)) (\<lambda>_.
               ret False)))))
       (\<lambda>e. case e of
              FileNotFoundError _ \<Rightarrow>
                bind_run (print w ([0x274C, 32] @ u ''dbt command not found. Please install dbt-core and dbt-duckdb'')) (\<lambda>_.
                ret False)
            | _ \<Rightarrow>
                bind_run (print w ([0x274C, 32] @ u ''Error testing dbt connection: '' @ exn_str e)) (\<lambda>_.
                ret False)))"

text \<open>
  \<open>main\<close> (lines 83-154), section by section. Each step takes the value of
  \<open>success_count\<close> before it and yields the value after it.
\<close>

definition total_steps :: int where
  "total_steps = 6"

text \<open>Lines 84-87.\<close>

definition banner :: "world \<Rightarrow> unit run" where
  "banner w =
     bind_run (print_header w (u ''Facebook Pages dbt Setup'')) (\<lambda>_.
     bind_run (print w ([0x1F680, 32] @ u ''Setting up Facebook Pages dbt transformation models...'')) (\<lambda>_.
     print w (u ''   This will install dependencies and validate your setup.'')))"

text \<open>Lines 92-100.\<close>

definition step1 :: "world \<Rightarrow> int \<Rightarrow> int run" where
  "step1 w success_count =
     bind_run (print_header w (u ''Step 1: Environment Check'')) (\<lambda>_.
     bind_run (sys_version_info w) (\<lambda>python_version.
     bind_run (print w (u ''Python version: '' @ str_int (major python_version) @ u ''.''
                        @ str_int (minor python_version) @ u ''.''
                        @ str_int (micro python_version))) (\<lambda>_.
     if tuple_ge [major python_version, minor python_version, micro python_version] [3, 8]
     then bind_run (print w ([0x2705, 32] @ u ''Python version is compatible'')) (\<lambda>_.
          ret (success_count + 1))
     else bind_run (print w ([0x274C, 32] @ u ''Python 3.8+ required'')) (\<lambda>_.
          ret success_count))))"

text \<open>Lines 102-105.\<close>

definition step2 :: "world \<Rightarrow> int \<Rightarrow> int run" where
  "step2 w success_count =
     bind_run (print_header w (u ''Step 2: Install Dependencies'')) (\<lambda>_.
     bind_run (run_command w (u ''pip install -r requirements.txt'')
                             (u ''Installing Python dependencies'')) (\<lambda>ok.
     if ok then ret (success_count + 1) else ret success_count))"

text \<open>Lines 107-110.\<close>

definition step3 :: "world \<Rightarrow> int \<Rightarrow> int run" where
  "step3 w success_count =
     bind_run (print_header w (u ''Step 3: Install dbt Dependencies'')) (\<lambda>_.
     bind_run (run_command w (u ''dbt deps'') (u ''Installing dbt package dependencies'')) (\<lambda>ok.
     if ok then ret (success_count + 1) else ret success_count))"

text \<open>Lines 112-115.\<close>

definition step4 :: "world \<Rightarrow> int \<Rightarrow> int run" where
  "step4 w success_count =
     bind_run (print_header w (u ''Step 4: Database Check'')) (\<lambda>_.
     bind_run (check_database_file w) (\<lambda>ok.
     if ok then ret (success_count + 1) else ret success_count))"

text \<open>Lines 117-120.\<close>

definition step5 :: "world \<Rightarrow> int \<Rightarrow> int run" where
  "step5 w success_count =
     bind_run (print_header w (u ''Step 5: Database Connection Test'')) (\<lambda>_.
     bind_run (check_dbt_connection w) (\<lambda>ok.
     if ok then ret (success_count + 1) else ret success_count))"

text \<open>Lines 122-125.\<close>

definition step6 :: "world \<Rightarrow> int \<Rightarrow> int run" where
  "step6 w success_count =
     bind_run (print_header w (u ''Step 6: Compile Models'')) (\<lambda>_.
     bind_run (run_command w (u ''dbt compile'') (u ''Compiling dbt models'')) (\<lambda>ok.
     if ok then ret (success_count + 1) else ret success_count))"

text \<open>Lines 132-141, 143-144 and 147-151: the three groups of messages of the summary.\<close>

definition success_messages :: "world \<Rightarrow> unit run" where
  "success_messages w =
     bind_run (print w ([10, 0x1F389, 32] @ u ''Setup completed successfully!'')) (\<lambda>_.
     bind_run (print w ([10, 0x1F4CB, 32] @ u ''Next steps:'')) (\<lambda>_.
     bind_run (print w (u ''   1. Run 'make pipeline' to execute all models'')) (\<lambda>_.
     bind_run (print w (u ''   2. Run 'make test' to validate data quality'')) (\<lambda>_.
     bind_run (print w (u ''   3. Run 'make docs' to view documentation'')) (\<lambda>_.
     bind_run (print w ([10, 0x1F4A1, 32] @ u ''Useful commands:'')) (\<lambda>_.
     bind_run (print w (u ''   '' @ [0x2022, 32] @ u ''make run          - Run all models'')) (\<lambda>_.
     bind_run (print w (u ''   '' @ [0x2022, 32] @ u ''make test         - Run data quality tests'')) (\<lambda>_.
     bind_run (print w (u ''   '' @ [0x2022, 32] @ u ''make docs         - Generate documentation'')) (\<lambda>_.
     print w (u ''   '' @ [0x2022, 32] @ u ''make help         - See all available commands''))))))))))"

definition warning_messages :: "world \<Rightarrow> int \<Rightarrow> unit run" where
  "warning_messages w success_count =
     bind_run (print w ([10, 0x26A0, 0xFE0F, 32, 32] @ u ''Setup completed with ''
                        @ str_int (total_steps - success_count) @ u '' warnings/errors'')) (\<lambda>_.
     print w (u ''   Please review the output above and resolve any issues''))"

definition critical_messages :: "world \<Rightarrow> unit run" where
  "critical_messages w =
     bind_run (print w ([10, 0x1F6A8, 32] @ u ''Critical issues detected:'')) (\<lambda>_.
     bind_run (print w (u ''   '' @ [0x2022, 32] @ u ''Make sure you have Python 3.8+ installed'')) (\<lambda>_.
     bind_run (print w (u ''   '' @ [0x2022, 32] @ u ''Install required dependencies'')) (\<lambda>_.
     bind_run (print w (u ''   '' @ [0x2022, 32] @ u ''Run the DLT extraction pipeline first'')) (\<lambda>_.
     print w (u ''   '' @ [0x2022, 32] @ u ''Check your database connection settings'')))))"

text \<open>Lines 127-154.\<close>

definition final_status :: "world \<Rightarrow> int \<Rightarrow> unit run" where
  "final_status w success_count =
     bind_run (print_header w (u ''Setup Complete'')) (\<lambda>_.
     bind_run (print w ([0x2705, 32] @ str_int success_count @ u ''/'' @ str_int total_steps
                        @ u '' steps completed successfully'')) (\<lambda>_.
     bind_run (if success_count = total_steps
               then success_messages w
               else bind_run (warning_messages w success_count) (\<lambda>_.
                    if success_count < 4 then critical_messages w else ret ())) (\<lambda>_.
     bind_run (print w ([10, 0x1F4DA, 32] @ u ''Documentation: README.md'')) (\<lambda>_.
     print w ([0x1F517, 32] @ u ''DLT Pipeline: https://github.com/your-org/dlt-facebook-pages'')))))"

text \<open>Lines 84-125: the banner and the six steps, yielding the final \<open>success_count\<close>.\<close>

definition run_steps :: "world \<Rightarrow> int run" where
  "run_steps w =
     bind_run (banner w) (\<lambda>_.
     let success_count = 0 in
     bind_run (step1 w success_count) (\<lambda>success_count.
     bind_run (step2 w success_count) (\<lambda>success_count.
     bind_run (step3 w success_count) (\<lambda>success_count.
     bind_run (step4 w success_count) (\<lambda>success_count.
     bind_run (step5 w success_count) (\<lambda>success_count.
     step6 w success_count))))))"

definition main :: "world \<Rightarrow> unit run" where
  "main w = bind_run (run_steps w) (\<lambda>success_count. final_status w success_count)"

text \<open>
  The exit status of the process (lines 156-157): 0 when \<open>main\<close> returns, 1 when an
  exception leaves it. The script never calls \<open>sys.exit\<close>.
\<close>

definition exit_status :: "world \<Rightarrow> int" where
  "exit_status w = (case snd (main w) of Return _ \<Rightarrow> 0 | Raise _ \<Rightarrow> 1)"

section \<open>Notions used to state the properties\<close>

text \<open>The condition of line 47 on one line of the configuration file.\<close>

definition has_path_line :: "pystr \<Rightarrow> bool" where
  "has_path_line line = (py_in (u ''path:'') line \<and> py_in (u ''.duckdb'') line)"

text \<open>
  The text after the first occurrence of \<open>m\<close> in a string (empty if \<open>m\<close> does not occur), and
  the text before the first occurrence of \<open>m\<close> (the whole string if \<open>m\<close> does not occur).
\<close>

fun after_first :: "pystr \<Rightarrow> pystr \<Rightarrow> pystr" where
  "after_first m [] = []"
| "after_first m (c # cs) =
     (if prefix m (c # cs) then drop (length m) (c # cs) else after_first m cs)"

fun before_first :: "pystr \<Rightarrow> pystr \<Rightarrow> pystr" where
  "before_first m [] = []"
| "before_first m (c # cs) = (if prefix m (c # cs) then [] else c # before_first m cs)"

text \<open>Whitespace, then quote characters, removed from both ends.\<close>

definition unquote :: "pystr \<Rightarrow> pystr" where
  "unquote s = py_strip_chars (py_strip s) quote_chars"

definition default_db_file :: pystr where
  "default_db_file = u ''facebook_pages_pipeline.duckdb''"

text \<open>
  What the check or command under each of the six steps returned: the version comparison,
  and whether each called function returned \<open>True\<close>.
\<close>

definition step_outcomes :: "world \<Rightarrow> bool list" where
  "step_outcomes w =
     [tuple_ge [major (version_info w), minor (version_info w), micro (version_info w)] [3, 8],
      snd (run_command w (u ''pip install -r requirements.txt'')
                         (u ''Installing Python dependencies'')) = Return True,
      snd (run_command w (u ''dbt deps'') (u ''Installing dbt package dependencies'')) = Return True,
      snd (check_database_file w) = Return True,
      snd (check_dbt_connection w) = Return True,
      snd (run_command w (u ''dbt compile'') (u ''Compiling dbt models'')) = Return True]"

definition successes :: "world \<Rightarrow> int" where
  "successes w = int (length (filter id (step_outcomes w)))"

text \<open>
  The outside call that carries out each step: reading the interpreter's version, the three
  shell commands, the existence test of the database file, and the \<open>dbt debug\<close> call.
\<close>

fun step_of :: "event \<Rightarrow> nat option" where
  "step_of Sys_version_info = Some 1"
| "step_of (Subprocess_shell c) =
     (if c = u ''pip install -r requirements.txt'' then Some 2
      else if c = u ''dbt deps'' then Some 3
      else if c = u ''dbt compile'' then Some 6
      else None)"
| "step_of (Os_path_exists p) = Some 4"
| "step_of (Subprocess_argv a) = (if a = [u ''dbt'', u ''debug''] then Some 5 else None)"
| "step_of (Print s) = None"
| "step_of Profiles_exists = None"
| "step_of Profiles_read = None"

definition is_print :: "event \<Rightarrow> bool" where
  "is_print ev = (case ev of Print s \<Rightarrow> True | _ \<Rightarrow> False)"

subsection \<open>Example environments\<close>

text \<open>
  A machine where everything is in place: Python 3.11.4, every command exits with 0,
  \<open>dbt debug\<close> reports success, no configuration file, the default database file present.
\<close>

definition ok_world :: world where
  "ok_world =
     \<lparr>version_info = \<lparr>major = 3, minor = 11, micro = 4\<rparr>,
      shell_result = (\<lambda>c. Inr \<lparr>returncode = 0, stdout = [], stderr = []\<rparr>),
      argv_result = (\<lambda>a. Inr \<lparr>returncode = 0, stdout = u ''All checks passed!'', stderr = []\<rparr>),
      profiles_exists = Inr False,
      profiles_read = Inl (FileNotFoundError (u ''No such file'')),
      path_exists = (\<lambda>p. p = u ''facebook_pages_pipeline.duckdb''),
      print_error = (\<lambda>s. None)\<rparr>"

text \<open>An environment producing a chosen outcome for each of the six steps.\<close>

definition outcome_world :: "bool \<Rightarrow> bool \<Rightarrow> bool \<Rightarrow> bool \<Rightarrow> bool \<Rightarrow> bool \<Rightarrow> world" where
  "outcome_world b1 b2 b3 b4 b5 b6 =
     \<lparr>version_info = \<lparr>major = 3, minor = (if b1 then 8 else 7), micro = 0\<rparr>,
      shell_result = (\<lambda>c.
        Inr \<lparr>returncode =
               (if c = u ''pip install -r requirements.txt'' then (if b2 then 0 else 1)
                else if c = u ''dbt deps'' then (if b3 then 0 else 1)
                else (if b6 then 0 else 1)),
             stdout = [], stderr = []\<rparr>),
      argv_result = (\<lambda>a.
        Inr \<lparr>returncode = 0,
             stdout = (if b5 then u ''All checks passed!'' else []), stderr = []\<rparr>),
      profiles_exists = Inr False,
      profiles_read = Inl (FileNotFoundError (u ''No such file'')),
      path_exists = (\<lambda>p. b4),
      print_error = (\<lambda>s. None)\<rparr>"

text \<open>Python 3.7.9 and nothing else changed.\<close>

definition old_python_world :: world where
  "old_python_world = ok_world\<lparr>version_info := \<lparr>major = 3, minor = 7, micro = 9\<rparr>\<rparr>"

text \<open>\<open>dbt debug\<close> completes without the success phrase, and \<open>dbt\<close> is not installed.\<close>

definition debug_fails_world :: world where
  "debug_fails_world =
     ok_world\<lparr>argv_result :=
       (\<lambda>a. Inr \<lparr>returncode = 1, stdout = u ''1 check failed'', stderr = u ''bad profile''\<rparr>)\<rparr>"

definition no_dbt_world :: world where
  "no_dbt_world =
     ok_world\<lparr>argv_result := (\<lambda>a. Inl (FileNotFoundError (u ''No such file or directory: 'dbt' '')))\<rparr>"

text \<open>
  Configuration files: one with a quoted path on its third line, one whose only matching
  line holds the marker twice, one with a commented-out path before the live one, one
  without any path, and one that cannot be read.
\<close>

definition quoted_path_world :: world where
  "quoted_path_world =
     ok_world\<lparr>profiles_exists := Inr True,
              profiles_read := Inr (u ''dev:'' @ [10] @ u ''  type: duckdb'' @ [10]
                                     @ u ''  path: '' @ [39] @ u ''data/fb.duckdb'' @ [39] @ [10]),
              path_exists := (\<lambda>p. p = u ''data/fb.duckdb'')\<rparr>"

definition two_markers_world :: world where
  "two_markers_world =
     ok_world\<lparr>profiles_exists := Inr True,
              profiles_read := Inr (u ''path: a/path:b.duckdb'')\<rparr>"

definition commented_path_world :: world where
  "commented_path_world =
     ok_world\<lparr>profiles_exists := Inr True,
              profiles_read := Inr (u ''# path: old.duckdb'' @ [10] @ u ''path: new.duckdb''),
              path_exists := (\<lambda>p. p = u ''new.duckdb'')\<rparr>"

definition no_path_world :: world where
  "no_path_world =
     ok_world\<lparr>profiles_exists := Inr True,
              profiles_read := Inr (u ''dev:'' @ [10] @ u ''  type: postgres'')\<rparr>"

definition unreadable_world :: world where
  "unreadable_world =
     ok_world\<lparr>profiles_exists := Inr True,
              profiles_read := Inl (OtherException (u ''Permission denied''))\<rparr>"

text \<open>
  The directory \<open>.dbt\<close> may not be searched, so that the existence test of the
  configuration file raises PermissionError; and a standard output that takes ASCII only,
  so that printing a line with an emoji raises UnicodeEncodeError.
\<close>

definition unsearchable_world :: world where
  "unsearchable_world =
     ok_world\<lparr>profiles_exists := Inl (OtherException (u ''[Errno 13] Permission denied''))\<rparr>"

definition ascii_stdout_world :: world where
  "ascii_stdout_world =
     ok_world\<lparr>print_error :=
       (\<lambda>s. if list_ex (\<lambda>c. 127 < c) s
            then Some (OtherException (u ''ascii codec cannot encode character''))
            else None)\<rparr>"

text \<open>\<open>dbt deps\<close> cannot be started.\<close>

definition deps_raises_world :: world where
  "deps_raises_world =
     ok_world\<lparr>shell_result := (\<lambda>c. Inl (OtherException (u ''Resource temporarily unavailable'')))\<rparr>"

section \<open>Facts about sequencing and the step functions\<close>

lemma snd_bind_run: "snd m = Return a \<Longrightarrow> snd (bind_run m f) = snd (f a)"
  by (simp add: bind_run_def)

lemma fst_bind_run: "snd m = Return a \<Longrightarrow> fst (bind_run m f) = fst m @ fst (f a)"
  by (simp add: bind_run_def)

lemma bind_run_raise: "snd m = Raise e \<Longrightarrow> bind_run m f = (fst m, Raise e)"
  by (simp add: bind_run_def)

lemma bind_run_raised: "bind_run (t, Raise e) f = (t, Raise e)"
  by (simp add: bind_run_def)

lemma print_ok: "print_error w = (\<lambda>s. None) \<Longrightarrow> print w s = ([Print s], Return ())"
  by (simp add: print_def)

lemma print_header_eq:
  "print_error w = (\<lambda>s. None) \<Longrightarrow>
   print_header w title =
     ([Print (10 # replicate 60 61), Print (u ''  '' @ title), Print (replicate 60 61)], Return ())"
  by (simp add: print_header_def bind_run_def print_ok)

lemma run_command_eq:
  "print_error w = (\<lambda>s. None) \<Longrightarrow>
   run_command w command description =
     (case shell_result w command of
        Inr result \<Rightarrow>
          if returncode result = 0
          then ([Print ([10, 0x1F504, 32] @ description @ u ''...''), Subprocess_shell command,
                 Print ([0x2705, 32] @ description @ u '' completed successfully'')], Return True)
          else ([Print ([10, 0x1F504, 32] @ description @ u ''...''), Subprocess_shell command,
                 Print ([0x274C, 32] @ description @ u '' failed:''), Print (stderr result)],
                Return False)
      | Inl e \<Rightarrow>
          ([Print ([10, 0x1F504, 32] @ description @ u ''...''), Subprocess_shell command,
            Print ([0x274C, 32] @ u ''Error during '' @ description @ u '': '' @ exn_str e)],
           Return False))"
  by (simp add: run_command_def bind_run_def try_except_def print_ok ret_def
      subprocess_run_shell_def of_result_def split: sum.splits)

lemma check_dbt_connection_eq:
  "print_error w = (\<lambda>s. None) \<Longrightarrow>
   check_dbt_connection w =
     (case argv_result w [u ''dbt'', u ''debug''] of
        Inr result \<Rightarrow>
          if py_in (u ''All checks passed!'') (stdout result)
          then ([Print ([10, 0x1F504, 32] @ u ''Testing dbt database connection...''),
                 Subprocess_argv [u ''dbt'', u ''debug''],
                 Print ([0x2705, 32] @ u ''dbt connection test passed'')], Return True)
          else ([Print ([10, 0x1F504, 32] @ u ''Testing dbt database connection...''),
                 Subprocess_argv [u ''dbt'', u ''debug''],
                 Print ([0x274C, 32] @ u ''dbt connection test failed:''),
                 Print (stdout result), Print (stderr result)], Return False)
      | Inl e \<Rightarrow>
          ([Print ([10, 0x1F504, 32] @ u ''Testing dbt database connection...''),
            Subprocess_argv [u ''dbt'', u ''debug''],
            Print (case e of
                     FileNotFoundError _ \<Rightarrow>
                       [0x274C, 32] @ u ''dbt command not found. Please install dbt-core and dbt-duckdb''
                   | _ \<Rightarrow> [0x274C, 32] @ u ''Error testing dbt connection: '' @ exn_str e)],
           Return False))"
  by (simp add: check_dbt_connection_def bind_run_def try_except_def print_ok ret_def
      subprocess_run_argv_def of_result_def split: sum.splits exn.splits)

section \<open>Splitting and scanning\<close>

lemma py_in_iff_sublist: "py_in n s = sublist n s"
  by (induction s) (auto simp: sublist_Cons_right)

lemma split_from_hd:
  "m \<noteq> [] \<Longrightarrow> \<exists>rest. split_from m cur s = (cur @ before_first m s) # rest"
proof (induction s arbitrary: cur)
  case Nil
  then show ?case by simp
next
  case (Cons a s)
  show ?case
  proof (cases "prefix m (a # s)")
    case True
    then show ?thesis using Cons.prems by simp
  next
    case False
    then show ?thesis using Cons.IH [OF Cons.prems, of "cur @ [a]"] by simp
  qed
qed

lemma split_from_found:
  "m \<noteq> [] \<Longrightarrow> py_in m s \<Longrightarrow>
   split_from m cur s = (cur @ before_first m s) # split_from m [] (after_first m s)"
  by (induction s arbitrary: cur) auto

lemma py_split_field1:
  assumes "m \<noteq> []" "py_in m s"
  shows "1 < length (py_split s m) \<and> py_split s m ! 1 = before_first m (after_first m s)"
proof -
  obtain rest where r: "split_from m [] (after_first m s) = before_first m (after_first m s) # rest"
    using split_from_hd [OF assms(1), of "[]" "after_first m s"] by auto
  show ?thesis
    using split_from_found [OF assms, of "[]"] r by (simp add: py_split_def)
qed

lemma before_first_absent: "\<not> py_in m s \<Longrightarrow> before_first m s = s"
  by (induction s) auto

lemma u_path_nonempty: "u ''path:'' \<noteq> []"
  by (simp add: u_def)

lemma path_line_field:
  "has_path_line line \<Longrightarrow>
   py_index (py_split line (u ''path:'')) 1
     = ret (before_first (u ''path:'') (after_first (u ''path:'') line))"
  using py_split_field1 [OF u_path_nonempty, of line]
  by (simp add: has_path_line_def py_index_def)

lemma scan_lines_step:
  "scan_lines d (line # rest) =
     (if has_path_line line
      then ret (unquote (before_first (u ''path:'') (after_first (u ''path:'') line)))
      else scan_lines d rest)"
proof (cases "has_path_line line")
  case True
  then show ?thesis
    using path_line_field [OF True]
    by (simp add: has_path_line_def bind_run_def ret_def unquote_def)
next
  case False
  then show ?thesis by (auto simp: has_path_line_def)
qed

lemma scan_lines_find:
  "scan_lines d ls =
     (case find has_path_line ls of
        None \<Rightarrow> ret d
      | Some line \<Rightarrow> ret (unquote (before_first (u ''path:'') (after_first (u ''path:'') line))))"
proof (induction ls)
  case Nil
  then show ?case by simp
next
  case (Cons a ls)
  then show ?case by (simp only: scan_lines_step find.simps split: if_splits) simp
qed

lemma find_first_of_append:
  "\<forall>l\<in>set pre. \<not> P l \<Longrightarrow> P line \<Longrightarrow> find P (pre @ line # post) = Some line"
  by (induction pre) auto

lemma find_none: "\<forall>l\<in>set ls. \<not> P l \<Longrightarrow> find P ls = None"
  by (induction ls) auto

lemma split_from_sublist: "l \<in> set (split_from sep cur s) \<Longrightarrow> sublist l (cur @ s)"
proof (induction sep cur s rule: split_from.induct)
  case (1 sep cur)
  then show ?case by simp
next
  case (2 sep cur c cs)
  show ?case
  proof (cases "sep \<noteq> [] \<and> prefix sep (c # cs)")
    case True
    then consider "l = cur" | "l \<in> set (split_from sep [] (drop (length sep) (c # cs)))"
      using "2.prems" by auto
    then show ?thesis
    proof cases
      case 1
      then show ?thesis by simp
    next
      case 2
      then have "sublist l (drop (length sep) (c # cs))"
        using "2.IH"(1) [OF True] by simp
      moreover have "sublist (drop (length sep) (c # cs)) (cur @ c # cs)"
        by (metis sublist_drop sublist_append_leftI sublist_order.order.trans)
      ultimately show ?thesis
        by (rule sublist_order.order.trans)
    qed
  next
    case False
    then have "l \<in> set (split_from sep (cur @ [c]) cs)"
      using "2.prems" by auto
    then show ?thesis
      using "2.IH"(2) [OF False] by simp
  qed
qed

lemma line_marker_in_content:
  assumes "l \<in> set (py_split c sep)" "py_in m l"
  shows "py_in m c"
proof -
  have "sublist l c"
    using split_from_sublist [of l sep "[]" c] assms(1) by (simp add: py_split_def)
  then show ?thesis
    using assms(2) by (metis py_in_iff_sublist sublist_order.order.trans)
qed

section \<open>The database check\<close>

lemma scan_profiles_eq:
  "scan_profiles w d =
     (case profiles_read w of
        Inl e \<Rightarrow> ([Profiles_read], Return d)
      | Inr content \<Rightarrow>
          ([Profiles_read],
           Return (if py_in (u ''path:'') content
                   then (case find has_path_line (py_split content [10]) of
                           None \<Rightarrow> d
                         | Some line \<Rightarrow>
                             unquote (before_first (u ''path:'') (after_first (u ''path:'') line)))
                   else d)))"
  by (simp add: scan_profiles_def bind_run_def try_except_def ret_def
      read_profiles_def of_result_def scan_lines_find
      split: sum.splits option.splits)

lemma resolve_db_file_eq:
  "resolve_db_file w =
     (case profiles_exists w of
        Inl e \<Rightarrow> ([Profiles_exists], Raise e)
      | Inr found \<Rightarrow>
          if found
          then (Profiles_exists # fst (scan_profiles w default_db_file),
                snd (scan_profiles w default_db_file))
          else ([Profiles_exists], Return default_db_file))"
  by (simp add: resolve_db_file_def Let_def bind_run_def ret_def
      profiles_file_exists_def of_result_def default_db_file_def scan_profiles_eq
      split: sum.splits option.splits)

lemma check_database_file_eq:
  "print_error w = (\<lambda>s. None) \<Longrightarrow> resolve_db_file w = (t, Return p) \<Longrightarrow>
   check_database_file w =
     (if path_exists w p
      then (t @ [Os_path_exists p, Print ([0x2705, 32] @ u ''Database file found: '' @ p)],
            Return True)
      else (t @ [Os_path_exists p,
                 Print ([0x26A0, 0xFE0F, 32, 32] @ u ''Database file not found: '' @ p),
                 Print (u ''   Make sure to run the DLT extraction pipeline first!''),
                 Print (u ''   See: https://github.com/your-org/dlt-facebook-pages'')],
            Return False))"
  by (simp add: check_database_file_def bind_run_def os_path_exists_def print_ok ret_def)

lemma check_database_file_raise:
  "resolve_db_file w = (t, Raise e) \<Longrightarrow> check_database_file w = (t, Raise e)"
  by (simp add: check_database_file_def bind_run_def)

lemma check_database_file_looks_for:
  "resolve_db_file w = (t, Return p) \<Longrightarrow>
   fst (check_database_file w) ! length t = Os_path_exists p"
  by (simp add: check_database_file_def bind_run_def os_path_exists_def print_def ret_def
      nth_append split: option.splits)

lemma check_database_file_of:
  "print_error w = (\<lambda>s. None) \<Longrightarrow> resolve_db_file w = (t, Return p) \<Longrightarrow>
   snd (check_database_file w) = Return (path_exists w p)
   \<and> fst (check_database_file w) ! length t = Os_path_exists p"
  by (simp add: check_database_file_eq nth_append)

lemma resolve_db_file_returns:
  "profiles_exists w = Inr b \<Longrightarrow>
   \<exists>t p. resolve_db_file w = (t, Return p) \<and> list_all (\<lambda>ev. step_of ev = None) t"
  by (simp add: resolve_db_file_eq scan_profiles_eq split: sum.splits)

lemma resolve_found:
  assumes "profiles_exists w = Inr True" "profiles_read w = Inr c"
    and "find has_path_line (py_split c [10]) = Some line"
  shows "resolve_db_file w =
           ([Profiles_exists, Profiles_read],
            Return (unquote (before_first (u ''path:'') (after_first (u ''path:'') line))))"
proof -
  have "line \<in> set (py_split c [10])" "has_path_line line"
    using assms(3) by (auto simp: find_Some_iff)
  then have "py_in (u ''path:'') c"
    using line_marker_in_content by (auto simp: has_path_line_def)
  then show ?thesis
    using assms by (simp add: resolve_db_file_eq scan_profiles_eq)
qed

lemma resolve_default:
  assumes "profiles_exists w = Inr b"
    and "\<not> b
         \<or> (\<exists>c. profiles_read w = Inr c \<and> (\<forall>l\<in>set (py_split c [10]). \<not> has_path_line l))
         \<or> (\<exists>e. profiles_read w = Inl e)"
  shows "snd (resolve_db_file w) = Return default_db_file
         \<and> list_all (\<lambda>ev. \<not> is_print ev) (fst (resolve_db_file w))"
  using assms
  by (auto simp: resolve_db_file_eq scan_profiles_eq find_none is_print_def split: sum.splits)

section \<open>The six steps\<close>

lemma step1_eq:
  "print_error w = (\<lambda>s. None) \<Longrightarrow>
   step1 w c =
     (fst (print_header w (u ''Step 1: Environment Check''))
        @ [Sys_version_info,
           Print (u ''Python version: '' @ str_int (major (version_info w)) @ u ''.''
                    @ str_int (minor (version_info w)) @ u ''.''
                    @ str_int (micro (version_info w))),
           Print (if hd (step_outcomes w)
                  then [0x2705, 32] @ u ''Python version is compatible''
                  else [0x274C, 32] @ u ''Python 3.8+ required'')],
      Return (if hd (step_outcomes w) then c + 1 else c))"
  by (simp add: step1_def print_header_eq bind_run_def sys_version_info_def print_ok ret_def
      step_outcomes_def)

lemma counted_eq:
  "bind_run m (\<lambda>ok. if ok then ret (c + 1) else ret c) =
     (fst m, case snd m of Return ok \<Rightarrow> Return (if ok then c + 1 else c) | Raise e \<Rightarrow> Raise e)"
  by (cases m) (simp add: bind_run_def ret_def split: outcome.splits)

lemma run_command_returns:
  "print_error w = (\<lambda>s. None) \<Longrightarrow> \<exists>b. snd (run_command w command description) = Return b"
  by (auto simp: run_command_eq split: sum.splits)

lemma run_command_steps:
  "print_error w = (\<lambda>s. None) \<Longrightarrow>
   List.map_filter step_of (fst (run_command w command description))
     = List.map_filter step_of [Subprocess_shell command]"
  by (simp add: run_command_eq List.map_filter_def split: sum.splits)

lemma check_dbt_connection_returns:
  "print_error w = (\<lambda>s. None) \<Longrightarrow> \<exists>b. snd (check_dbt_connection w) = Return b"
  by (auto simp: check_dbt_connection_eq split: sum.splits)

lemma check_dbt_connection_steps:
  "print_error w = (\<lambda>s. None) \<Longrightarrow> List.map_filter step_of (fst (check_dbt_connection w)) = [5]"
  by (simp add: check_dbt_connection_eq List.map_filter_def split: sum.splits)

lemma check_database_file_returns:
  assumes "print_error w = (\<lambda>s. None)" "profiles_exists w = Inr b"
  shows "\<exists>b. snd (check_database_file w) = Return b"
proof -
  obtain t p where "resolve_db_file w = (t, Return p)"
    using resolve_db_file_returns [OF assms(2)] by blast
  then show ?thesis by (auto simp: check_database_file_eq [OF assms(1)])
qed

lemma no_steps: "list_all (\<lambda>ev. step_of ev = None) t \<Longrightarrow> List.map_filter step_of t = []"
  by (induction t) (auto simp: List.map_filter_def)

lemma check_database_file_steps:
  assumes "print_error w = (\<lambda>s. None)" "profiles_exists w = Inr b"
  shows "List.map_filter step_of (fst (check_database_file w)) = [4]"
proof -
  obtain t p where r: "resolve_db_file w = (t, Return p)" and t: "list_all (\<lambda>ev. step_of ev = None) t"
    using resolve_db_file_returns [OF assms(2)] by blast
  have "List.map_filter step_of t = []"
    using t by (rule no_steps)
  then show ?thesis
    using r by (simp add: check_database_file_eq [OF assms(1)] List.map_filter_def)
qed

lemma header_steps:
  "print_error w = (\<lambda>s. None) \<Longrightarrow> List.map_filter step_of (fst (print_header w title)) = []"
  by (simp add: print_header_eq List.map_filter_def)

lemma header_returns: "print_error w = (\<lambda>s. None) \<Longrightarrow> snd (print_header w title) = Return ()"
  by (simp add: print_header_eq)

lemma map_filter_append: "List.map_filter f (xs @ ys) = List.map_filter f xs @ List.map_filter f ys"
  by (simp add: List.map_filter_def)

text \<open>Each step: the counter it yields and the outside call it makes.\<close>

lemma step_after_header:
  assumes "print_error w = (\<lambda>s. None)" "snd m = Return b"
  shows "snd (bind_run (print_header w title) (\<lambda>_. bind_run m (\<lambda>ok. if ok then ret (c + 1) else ret c)))
           = Return (if b then c + 1 else c)"
    and "fst (bind_run (print_header w title) (\<lambda>_. bind_run m (\<lambda>ok. if ok then ret (c + 1) else ret c)))
           = fst (print_header w title) @ fst m"
  using assms by (simp_all add: counted_eq bind_run_def header_returns)

lemma step_after_header_raise:
  assumes "print_error w = (\<lambda>s. None)" "snd m = Raise e"
  shows "bind_run (print_header w title) (\<lambda>_. bind_run m (\<lambda>ok. if ok then ret (c + 1) else ret c))
           = (fst (print_header w title) @ fst m, Raise e)"
  using assms by (simp add: counted_eq bind_run_def header_returns)

lemma step1_value:
  "print_error w = (\<lambda>s. None) \<Longrightarrow>
   snd (step1 w c) = Return (if step_outcomes w ! 0 then c + 1 else c)"
  by (simp add: step1_eq step_outcomes_def)

lemma step2_value:
  assumes "print_error w = (\<lambda>s. None)"
  shows "snd (step2 w c) = Return (if step_outcomes w ! 1 then c + 1 else c)"
  using run_command_returns [OF assms, of "u ''pip install -r requirements.txt''" "u ''Installing Python dependencies''"]
  by (auto simp: step2_def step_after_header [OF assms] step_outcomes_def)

lemma step3_value:
  assumes "print_error w = (\<lambda>s. None)"
  shows "snd (step3 w c) = Return (if step_outcomes w ! 2 then c + 1 else c)"
  using run_command_returns [OF assms, of "u ''dbt deps''" "u ''Installing dbt package dependencies''"]
  by (auto simp: step3_def step_after_header [OF assms] step_outcomes_def)

lemma step4_value:
  assumes "print_error w = (\<lambda>s. None)" "profiles_exists w = Inr b"
  shows "snd (step4 w c) = Return (if step_outcomes w ! 3 then c + 1 else c)"
  using check_database_file_returns [OF assms]
  by (auto simp: step4_def step_after_header [OF assms(1)] step_outcomes_def)

lemma step5_value:
  assumes "print_error w = (\<lambda>s. None)"
  shows "snd (step5 w c) = Return (if step_outcomes w ! 4 then c + 1 else c)"
  using check_dbt_connection_returns [OF assms]
  by (auto simp: step5_def step_after_header [OF assms] step_outcomes_def)

lemma step6_value:
  assumes "print_error w = (\<lambda>s. None)"
  shows "snd (step6 w c) = Return (if step_outcomes w ! 5 then c + 1 else c)"
  using run_command_returns [OF assms, of "u ''dbt compile''" "u ''Compiling dbt models''"]
  by (auto simp: step6_def step_after_header [OF assms] step_outcomes_def)

lemma shell_steps:
  "u ''dbt deps'' \<noteq> u ''pip install -r requirements.txt''"
  "u ''dbt compile'' \<noteq> u ''pip install -r requirements.txt''"
  "u ''dbt compile'' \<noteq> u ''dbt deps''"
  by (simp_all add: u_def)

lemma step1_steps:
  "print_error w = (\<lambda>s. None) \<Longrightarrow> List.map_filter step_of (fst (step1 w c)) = [1]"
  by (simp add: step1_eq print_header_eq List.map_filter_def)

lemma step2_steps:
  assumes "print_error w = (\<lambda>s. None)"
  shows "List.map_filter step_of (fst (step2 w c)) = [2]"
  using run_command_returns [OF assms, of "u ''pip install -r requirements.txt''" "u ''Installing Python dependencies''"]
  by (auto simp: step2_def step_after_header [OF assms] map_filter_append header_steps [OF assms]
      run_command_steps [OF assms] shell_steps)

lemma step3_steps:
  assumes "print_error w = (\<lambda>s. None)"
  shows "List.map_filter step_of (fst (step3 w c)) = [3]"
  using run_command_returns [OF assms, of "u ''dbt deps''" "u ''Installing dbt package dependencies''"]
  by (auto simp: step3_def step_after_header [OF assms] map_filter_append header_steps [OF assms]
      run_command_steps [OF assms] shell_steps)

lemma step4_steps:
  assumes "print_error w = (\<lambda>s. None)" "profiles_exists w = Inr b"
  shows "List.map_filter step_of (fst (step4 w c)) = [4]"
  using check_database_file_returns [OF assms]
  by (auto simp: step4_def step_after_header [OF assms(1)] map_filter_append
      header_steps [OF assms(1)] check_database_file_steps [OF assms])

lemma step5_steps:
  assumes "print_error w = (\<lambda>s. None)"
  shows "List.map_filter step_of (fst (step5 w c)) = [5]"
  using check_dbt_connection_returns [OF assms]
  by (auto simp: step5_def step_after_header [OF assms] map_filter_append header_steps [OF assms]
      check_dbt_connection_steps [OF assms])

lemma step6_steps:
  assumes "print_error w = (\<lambda>s. None)"
  shows "List.map_filter step_of (fst (step6 w c)) = [6]"
  using run_command_returns [OF assms, of "u ''dbt compile''" "u ''Compiling dbt models''"]
  by (auto simp: step6_def step_after_header [OF assms] map_filter_append header_steps [OF assms]
      run_command_steps [OF assms] shell_steps)

text \<open>Step 4 when the existence test of the configuration file raises.\<close>

lemma step4_raises:
  assumes "print_error w = (\<lambda>s. None)" "profiles_exists w = Inl e"
  shows "step4 w c = (fst (print_header w (u ''Step 4: Database Check'')) @ [Profiles_exists], Raise e)"
proof -
  have "resolve_db_file w = ([Profiles_exists], Raise e)"
    using assms(2) by (simp add: resolve_db_file_eq)
  then have "check_database_file w = ([Profiles_exists], Raise e)"
    by (rule check_database_file_raise)
  then show ?thesis
    by (simp add: step4_def step_after_header_raise [OF assms(1)])
qed

section \<open>The whole run\<close>

lemma banner_eq:
  "print_error w = (\<lambda>s. None) \<Longrightarrow>
   banner w =
     (fst (print_header w (u ''Facebook Pages dbt Setup''))
        @ [Print ([0x1F680, 32] @ u ''Setting up Facebook Pages dbt transformation models...''),
           Print (u ''   This will install dependencies and validate your setup.'')],
      Return ())"
  by (simp add: banner_def print_header_eq bind_run_def print_ok)

lemma banner_steps:
  "print_error w = (\<lambda>s. None) \<Longrightarrow> List.map_filter step_of (fst (banner w)) = []"
  by (simp add: banner_eq print_header_eq List.map_filter_def)

lemma count_six:
  "length bs = 6 \<Longrightarrow>
   (if bs ! 5 then (1::int) else 0) + ((if bs ! 4 then 1 else 0) + ((if bs ! 3 then 1 else 0)
     + ((if bs ! 2 then 1 else 0) + ((if bs ! 1 then 1 else 0) + (if bs ! 0 then 1 else 0)))))
   = int (length (filter id bs))"
  by (cases bs; cases "tl bs"; cases "tl (tl bs)"; cases "tl (tl (tl bs))";
      cases "tl (tl (tl (tl bs)))"; cases "tl (tl (tl (tl (tl bs))))") auto

lemma length_step_outcomes: "length (step_outcomes w) = 6"
  by (simp add: step_outcomes_def)

lemma run_steps_value:
  assumes p: "print_error w = (\<lambda>s. None)" and x: "profiles_exists w = Inr b"
  shows "snd (run_steps w) = Return (successes w)"
proof -
  have b: "snd (banner w) = Return ()"
    using p by (simp add: banner_eq)
  have "snd (run_steps w) =
          Return ((if step_outcomes w ! 5 then 1 else 0) + ((if step_outcomes w ! 4 then 1 else 0)
            + ((if step_outcomes w ! 3 then 1 else 0) + ((if step_outcomes w ! 2 then 1 else 0)
            + ((if step_outcomes w ! 1 then 1 else 0) + (if step_outcomes w ! 0 then 1 else 0))))))"
    by (simp add: run_steps_def Let_def snd_bind_run [OF b] snd_bind_run [OF step1_value [OF p]]
        snd_bind_run [OF step2_value [OF p]] snd_bind_run [OF step3_value [OF p]]
        snd_bind_run [OF step4_value [OF p x]] snd_bind_run [OF step5_value [OF p]]
        step6_value [OF p])
  then show ?thesis
    by (simp only: successes_def count_six [OF length_step_outcomes])
qed

lemma run_steps_steps:
  assumes p: "print_error w = (\<lambda>s. None)" and x: "profiles_exists w = Inr b"
  shows "List.map_filter step_of (fst (run_steps w)) = [1, 2, 3, 4, 5, 6]"
proof -
  have b: "snd (banner w) = Return ()"
    using p by (simp add: banner_eq)
  show ?thesis
    by (simp add: run_steps_def Let_def fst_bind_run [OF b] fst_bind_run [OF step1_value [OF p]]
        fst_bind_run [OF step2_value [OF p]] fst_bind_run [OF step3_value [OF p]]
        fst_bind_run [OF step4_value [OF p x]] fst_bind_run [OF step5_value [OF p]]
        map_filter_append banner_steps [OF p]
        step1_steps [OF p] step2_steps [OF p] step3_steps [OF p] step4_steps [OF p x]
        step5_steps [OF p] step6_steps [OF p])
qed

text \<open>The run when the existence test of the configuration file raises: it ends in step 4.\<close>

lemma run_steps_raises:
  assumes p: "print_error w = (\<lambda>s. None)" and x: "profiles_exists w = Inl e"
  shows "snd (run_steps w) = Raise e"
    and "List.map_filter step_of (fst (run_steps w)) = [1, 2, 3]"
proof -
  have b: "snd (banner w) = Return ()"
    using p by (simp add: banner_eq)
  have s4: "snd (step4 w c) = Raise e" "List.map_filter step_of (fst (step4 w c)) = []" for c
  proof -
    show "snd (step4 w c) = Raise e"
      by (simp add: step4_raises [OF p x])
    have "List.map_filter step_of [Profiles_exists] = []"
      by (simp add: List.map_filter_def)
    then show "List.map_filter step_of (fst (step4 w c)) = []"
      by (simp add: step4_raises [OF p x] map_filter_append header_steps [OF p])
  qed
  have r: "bind_run (step4 w c) f = (fst (step4 w c), Raise e)" for c and f :: "int \<Rightarrow> int run"
    by (rule bind_run_raise) (rule s4(1))
  show "snd (run_steps w) = Raise e"
    by (simp add: run_steps_def Let_def snd_bind_run [OF b] snd_bind_run [OF step1_value [OF p]]
        snd_bind_run [OF step2_value [OF p]] snd_bind_run [OF step3_value [OF p]] r)
  show "List.map_filter step_of (fst (run_steps w)) = [1, 2, 3]"
    by (simp add: run_steps_def Let_def fst_bind_run [OF b] fst_bind_run [OF step1_value [OF p]]
        fst_bind_run [OF step2_value [OF p]] fst_bind_run [OF step3_value [OF p]] r
        map_filter_append banner_steps [OF p]
        step1_steps [OF p] step2_steps [OF p] step3_steps [OF p] s4(2))
qed

lemma success_messages_eq:
  "print_error w = (\<lambda>s. None) \<Longrightarrow>
   success_messages w =
     ([Print ([10, 0x1F389, 32] @ u ''Setup completed successfully!''),
       Print ([10, 0x1F4CB, 32] @ u ''Next steps:''),
       Print (u ''   1. Run 'make pipeline' to execute all models''),
       Print (u ''   2. Run 'make test' to validate data quality''),
       Print (u ''   3. Run 'make docs' to view documentation''),
       Print ([10, 0x1F4A1, 32] @ u ''Useful commands:''),
       Print (u ''   '' @ [0x2022, 32] @ u ''make run          - Run all models''),
       Print (u ''   '' @ [0x2022, 32] @ u ''make test         - Run data quality tests''),
       Print (u ''   '' @ [0x2022, 32] @ u ''make docs         - Generate documentation''),
       Print (u ''   '' @ [0x2022, 32] @ u ''make help         - See all available commands'')],
      Return ())"
  by (simp add: success_messages_def bind_run_def print_ok)

lemma warning_messages_eq:
  "print_error w = (\<lambda>s. None) \<Longrightarrow>
   warning_messages w n =
     ([Print ([10, 0x26A0, 0xFE0F, 32, 32] @ u ''Setup completed with ''
                @ str_int (total_steps - n) @ u '' warnings/errors''),
       Print (u ''   Please review the output above and resolve any issues'')],
      Return ())"
  by (simp add: warning_messages_def bind_run_def print_ok)

lemma critical_messages_eq:
  "print_error w = (\<lambda>s. None) \<Longrightarrow>
   critical_messages w =
     ([Print ([10, 0x1F6A8, 32] @ u ''Critical issues detected:''),
       Print (u ''   '' @ [0x2022, 32] @ u ''Make sure you have Python 3.8+ installed''),
       Print (u ''   '' @ [0x2022, 32] @ u ''Install required dependencies''),
       Print (u ''   '' @ [0x2022, 32] @ u ''Run the DLT extraction pipeline first''),
       Print (u ''   '' @ [0x2022, 32] @ u ''Check your database connection settings'')],
      Return ())"
  by (simp add: critical_messages_def bind_run_def print_ok)

lemma final_status_eq:
  "print_error w = (\<lambda>s. None) \<Longrightarrow>
   final_status w n =
     (fst (print_header w (u ''Setup Complete''))
        @ [Print ([0x2705, 32] @ str_int n @ u ''/'' @ str_int total_steps
                    @ u '' steps completed successfully'')]
        @ (if n = total_steps then fst (success_messages w)
           else fst (warning_messages w n) @ (if n < 4 then fst (critical_messages w) else []))
        @ [Print ([10, 0x1F4DA, 32] @ u ''Documentation: README.md''),
           Print ([0x1F517, 32] @ u ''DLT Pipeline: https://github.com/your-org/dlt-facebook-pages'')],
      Return ())"
  by (simp add: final_status_def print_header_eq success_messages_eq warning_messages_eq
      critical_messages_eq bind_run_def print_ok ret_def)

lemma final_status_steps:
  "print_error w = (\<lambda>s. None) \<Longrightarrow> List.map_filter step_of (fst (final_status w n)) = []"
  by (simp add: final_status_eq print_header_eq success_messages_eq warning_messages_eq
      critical_messages_eq List.map_filter_def)

lemma main_value:
  "print_error w = (\<lambda>s. None) \<Longrightarrow> profiles_exists w = Inr b \<Longrightarrow> snd (main w) = Return ()"
  by (simp add: main_def snd_bind_run [OF run_steps_value] final_status_eq)

lemma main_trace:
  "print_error w = (\<lambda>s. None) \<Longrightarrow> profiles_exists w = Inr b \<Longrightarrow>
   fst (main w) = fst (run_steps w) @ fst (final_status w (successes w))"
  by (simp add: main_def fst_bind_run [OF run_steps_value])

lemma main_raises:
  assumes "print_error w = (\<lambda>s. None)" "profiles_exists w = Inl e"
  shows "main w = (fst (run_steps w), Raise e)"
  by (simp add: main_def bind_run_raise [OF run_steps_raises(1) [OF assms]])

lemma outcome_world_ok:
  "print_error (outcome_world b1 b2 b3 b4 b5 b6) = (\<lambda>s. None)"
  "profiles_exists (outcome_world b1 b2 b3 b4 b5 b6) = Inr False"
  by (simp_all add: outcome_world_def)

lemma outcome_world_outcomes:
  "step_outcomes (outcome_world b1 b2 b3 b4 b5 b6) = [b1, b2, b3, b4, b5, b6]"
proof -
  let ?w = "outcome_world b1 b2 b3 b4 b5 b6"
  note p = outcome_world_ok(1) [of b1 b2 b3 b4 b5 b6]
  have r: "resolve_db_file ?w = ([Profiles_exists], Return default_db_file)"
    by (simp add: resolve_db_file_eq outcome_world_def)
  have pe: "path_exists ?w p = b4" for p
    by (simp add: outcome_world_def)
  have phrase: "py_in (u ''All checks passed!'') (u ''All checks passed!'')"
    "u ''All checks passed!'' \<noteq> []"
    by (simp_all add: u_def)
  have c1: "tuple_ge [major (version_info ?w), minor (version_info ?w), micro (version_info ?w)] [3, 8] = b1"
    by (simp add: outcome_world_def)
  have c2: "(snd (run_command ?w (u ''pip install -r requirements.txt'')
                   (u ''Installing Python dependencies'')) = Return True) = b2"
    by (simp add: run_command_eq [OF p]) (simp add: outcome_world_def)
  have c3: "(snd (run_command ?w (u ''dbt deps'') (u ''Installing dbt package dependencies''))
              = Return True) = b3"
    by (simp add: run_command_eq [OF p]) (simp add: outcome_world_def shell_steps)
  have c4: "(snd (check_database_file ?w) = Return True) = b4"
    by (simp add: check_database_file_eq [OF p r] pe)
  have c5: "(snd (check_dbt_connection ?w) = Return True) = b5"
    by (simp add: check_dbt_connection_eq [OF p]) (simp add: outcome_world_def phrase)
  have c6: "(snd (run_command ?w (u ''dbt compile'') (u ''Compiling dbt models'')) = Return True) = b6"
    by (simp add: run_command_eq [OF p]) (simp add: outcome_world_def shell_steps)
  show ?thesis
    by (simp only: step_outcomes_def c1 c2 c3 c4 c5 c6)
qed


lemma tuple_ge_3_8: "tuple_ge [a, b, c] [3, 8] = (3 < a \<or> (a = 3 \<and> 8 \<le> b))"
  by auto

lemma example_worlds_print:
  "print_error ok_world = (\<lambda>s. None)"
  "print_error old_python_world = (\<lambda>s. None)"
  "print_error debug_fails_world = (\<lambda>s. None)"
  "print_error no_dbt_world = (\<lambda>s. None)"
  "print_error quoted_path_world = (\<lambda>s. None)"
  "print_error two_markers_world = (\<lambda>s. None)"
  "print_error commented_path_world = (\<lambda>s. None)"
  "print_error no_path_world = (\<lambda>s. None)"
  "print_error unreadable_world = (\<lambda>s. None)"
  "print_error unsearchable_world = (\<lambda>s. None)"
  "print_error deps_raises_world = (\<lambda>s. None)"
  by (simp_all add: ok_world_def old_python_world_def debug_fails_world_def no_dbt_world_def
      quoted_path_world_def two_markers_world_def commented_path_world_def no_path_world_def
      unreadable_world_def unsearchable_world_def deps_raises_world_def)

section \<open>The properties\<close>

text \<open>
  C1. When standard output takes every line and the existence test of the configuration
  file answers, the count printed in the final summary is the number of steps whose check
  or command returned success. The counter \<open>run_steps\<close> yields is the number of true
  entries of \<open>step_outcomes\<close>; the trace of \<open>main\<close> ends with the summary for that
  number, whose fourth line (after the three lines of the header) shows it; each step
  yields the counter plus one when its check succeeded and the counter unchanged
  otherwise; and each of the 64 combinations of outcomes is produced by some such
  environment.
\<close>

theorem success_count_is_number_of_successful_steps:
  assumes "print_error w = (\<lambda>s. None)" and "profiles_exists w = Inr b"
  shows "snd (run_steps w) = Return (int (length (filter id (step_outcomes w))))
   \<and> fst (main w) = fst (run_steps w) @ fst (final_status w (int (length (filter id (step_outcomes w)))))
   \<and> fst (final_status w n) ! 3
       = Print ([0x2705, 32] @ str_int n @ u ''/'' @ str_int 6 @ u '' steps completed successfully'')
   \<and> snd (step1 w c) = Return (if step_outcomes w ! 0 then c + 1 else c)
   \<and> snd (step2 w c) = Return (if step_outcomes w ! 1 then c + 1 else c)
   \<and> snd (step3 w c) = Return (if step_outcomes w ! 2 then c + 1 else c)
   \<and> snd (step4 w c) = Return (if step_outcomes w ! 3 then c + 1 else c)
   \<and> snd (step5 w c) = Return (if step_outcomes w ! 4 then c + 1 else c)
   \<and> snd (step6 w c) = Return (if step_outcomes w ! 5 then c + 1 else c)
   \<and> (\<exists>w'. print_error w' = (\<lambda>s. None) \<and> profiles_exists w' = Inr False
          \<and> step_outcomes w' = [b1, b2, b3, b4, b5, b6])"
proof -
  note p = assms(1) and x = assms(2)
  have count_line: "fst (final_status w n) ! 3
       = Print ([0x2705, 32] @ str_int n @ u ''/'' @ str_int 6 @ u '' steps completed successfully'')"
    by (simp add: final_status_eq [OF p] print_header_eq [OF p] total_steps_def)
  have "print_error (outcome_world b1 b2 b3 b4 b5 b6) = (\<lambda>s. None)
        \<and> profiles_exists (outcome_world b1 b2 b3 b4 b5 b6) = Inr False
        \<and> step_outcomes (outcome_world b1 b2 b3 b4 b5 b6) = [b1, b2, b3, b4, b5, b6]"
    using outcome_world_ok outcome_world_outcomes by simp
  then have all: "\<exists>w'. print_error w' = (\<lambda>s. None) \<and> profiles_exists w' = Inr False
          \<and> step_outcomes w' = [b1, b2, b3, b4, b5, b6]"
    by (rule exI)
  show ?thesis
    using run_steps_value [OF p x] main_trace [OF p x] count_line all
      step1_value [OF p, of c] step2_value [OF p, of c] step3_value [OF p, of c]
      step4_value [OF p x, of c] step5_value [OF p, of c] step6_value [OF p, of c]
    by (simp only: successes_def)
qed

theorem success_count_is_number_of_successful_steps_witness:
  "snd (run_steps (outcome_world True False True False True False)) = Return 3
   \<and> fst (final_status (outcome_world True False True False True False) 3) ! 3
       = Print ([0x2705, 32] @ u ''3/6 steps completed successfully'')
   \<and> snd (step4 (outcome_world True False True False True False) 2) = Return 2
   \<and> snd (step5 (outcome_world True False True False True False) 2) = Return 3"
proof -
  have d: "str_int 3 = u ''3''" "str_int 6 = u ''6''"
    by (simp_all add: str_int_def digits.simps u_def)
  show ?thesis
    using success_count_is_number_of_successful_steps
            [OF outcome_world_ok, of True False True False True False 3 2]
    by (simp add: outcome_world_outcomes d) (simp add: u_def)
qed

text \<open>
  C2, as stated, fails. No \<open>print\<close> of the script is guarded against a standard output
  that rejects the text: when standard output takes ASCII only, the first line with an
  emoji (line 86) raises and no step is attempted. Apart from that, the existence test of
  line 39 stands before the \<open>try\<close> of line 41, unlike the other outside calls of the
  checks: when the directory \<open>.dbt\<close> may not be searched it raises inside step 4, the
  run has made the calls of steps 1, 2 and 3 and ends there, and steps 5 and 6 are never
  attempted.
\<close>

theorem steps_cut_short_counterexample:
  "List.map_filter step_of (fst (main unsearchable_world)) = [1, 2, 3]
   \<and> snd (main unsearchable_world) = Raise (OtherException (u ''[Errno 13] Permission denied''))
   \<and> List.map_filter step_of (fst (main ascii_stdout_world)) = []
   \<and> snd (main ascii_stdout_world) = Raise (OtherException (u ''ascii codec cannot encode character''))"
proof -
  have x: "profiles_exists unsearchable_world = Inl (OtherException (u ''[Errno 13] Permission denied''))"
    by (simp add: unsearchable_world_def)
  have a: "banner ascii_stdout_world =
             ([Print (10 # replicate 60 61), Print (u ''  '' @ u ''Facebook Pages dbt Setup''),
               Print (replicate 60 61),
               Print ([0x1F680, 32] @ u ''Setting up Facebook Pages dbt transformation models...'')],
              Raise (OtherException (u ''ascii codec cannot encode character'')))"
    by (simp add: banner_def print_header_def bind_run_def print_def ascii_stdout_world_def
        ok_world_def u_def list_ex_iff)
  have m: "main ascii_stdout_world = (fst (banner ascii_stdout_world),
             Raise (OtherException (u ''ascii codec cannot encode character'')))"
    by (simp add: main_def run_steps_def bind_run_raised a)
  show ?thesis
    using run_steps_raises [OF example_worlds_print(10) x] main_raises [OF example_worlds_print(10) x]
    by (simp add: m) (simp add: a List.map_filter_def)
qed

text \<open>
  C2, amended. When standard output takes every line and the existence test of the
  configuration file answers, the run makes the outside call of each of the six steps
  exactly once, in the order 1 to 6, whatever the outcomes: no step is skipped after a
  failure, none is repeated. Every combination of outcomes has such an environment.
\<close>

theorem all_six_steps_attempted_in_order:
  assumes "print_error w = (\<lambda>s. None)" and "profiles_exists w = Inr b"
  shows "List.map_filter step_of (fst (main w)) = [1, 2, 3, 4, 5, 6]
   \<and> (\<exists>w'. print_error w' = (\<lambda>s. None) \<and> profiles_exists w' = Inr False
          \<and> step_outcomes w' = [b1, b2, b3, b4, b5, b6]
          \<and> List.map_filter step_of (fst (main w')) = [1, 2, 3, 4, 5, 6])"
proof -
  have a: "List.map_filter step_of (fst (main v)) = [1, 2, 3, 4, 5, 6]"
    if "print_error v = (\<lambda>s. None)" "profiles_exists v = Inr c" for v c
    using that by (simp add: main_trace map_filter_append run_steps_steps final_status_steps)
  have "print_error (outcome_world b1 b2 b3 b4 b5 b6) = (\<lambda>s. None)
        \<and> profiles_exists (outcome_world b1 b2 b3 b4 b5 b6) = Inr False
        \<and> step_outcomes (outcome_world b1 b2 b3 b4 b5 b6) = [b1, b2, b3, b4, b5, b6]
        \<and> List.map_filter step_of (fst (main (outcome_world b1 b2 b3 b4 b5 b6))) = [1, 2, 3, 4, 5, 6]"
    using a [OF outcome_world_ok] outcome_world_ok outcome_world_outcomes by simp
  then have "\<exists>w'. print_error w' = (\<lambda>s. None) \<and> profiles_exists w' = Inr False
          \<and> step_outcomes w' = [b1, b2, b3, b4, b5, b6]
          \<and> List.map_filter step_of (fst (main w')) = [1, 2, 3, 4, 5, 6]"
    by (rule exI)
  then show ?thesis
    using a [OF assms] by simp
qed

theorem all_six_steps_attempted_in_order_witness:
  "List.map_filter step_of (fst (main (outcome_world False False False False False False)))
     = [1, 2, 3, 4, 5, 6]"
  using all_six_steps_attempted_in_order [OF outcome_world_ok]
  by simp

text \<open>
  C3, as stated, fails. In the two environments above an exception leaves \<open>main\<close>, and
  the process exits with status 1.
\<close>

theorem exit_status_counterexample:
  "exit_status unsearchable_world = 1 \<and> exit_status ascii_stdout_world = 1"
proof -
  have x: "profiles_exists unsearchable_world = Inl (OtherException (u ''[Errno 13] Permission denied''))"
    by (simp add: unsearchable_world_def)
  have a: "snd (banner ascii_stdout_world) = Raise (OtherException (u ''ascii codec cannot encode character''))"
    by (simp add: banner_def print_header_def bind_run_def print_def ascii_stdout_world_def
        ok_world_def u_def list_ex_iff)
  have m: "snd (main ascii_stdout_world) = Raise (OtherException (u ''ascii codec cannot encode character''))"
    by (simp add: main_def run_steps_def bind_run_raise [OF a] bind_run_raised)
  show ?thesis
    using main_raises [OF example_worlds_print(10) x] m by (simp add: exit_status_def)
qed

text \<open>
  C3, amended. When standard output takes every line and the existence test of the
  configuration file answers, \<open>main\<close> returns without an exception and the process exits
  with status 0; in particular it does so when all six steps fail.
\<close>

theorem main_always_exits_zero:
  assumes "print_error w = (\<lambda>s. None)" and "profiles_exists w = Inr b"
  shows "snd (main w) = Return () \<and> exit_status w = 0
   \<and> (\<exists>w'. print_error w' = (\<lambda>s. None) \<and> profiles_exists w' = Inr False
          \<and> step_outcomes w' = [False, False, False, False, False, False] \<and> exit_status w' = 0)"
proof -
  have a: "exit_status v = 0" if "print_error v = (\<lambda>s. None)" "profiles_exists v = Inr c" for v c
    using that by (simp add: exit_status_def main_value)
  let ?v = "outcome_world False False False False False False"
  have "print_error ?v = (\<lambda>s. None) \<and> profiles_exists ?v = Inr False
        \<and> step_outcomes ?v = [False, False, False, False, False, False] \<and> exit_status ?v = 0"
    using a [OF outcome_world_ok] outcome_world_ok outcome_world_outcomes by simp
  then have "\<exists>w'. print_error w' = (\<lambda>s. None) \<and> profiles_exists w' = Inr False
          \<and> step_outcomes w' = [False, False, False, False, False, False] \<and> exit_status w' = 0"
    by (rule exI)
  then show ?thesis
    using a [OF assms] main_value [OF assms] by simp
qed

theorem main_always_exits_zero_witness:
  "snd (main (outcome_world False False False False False False)) = Return ()
   \<and> exit_status (outcome_world False False False False False False) = 0"
  using main_always_exits_zero [OF outcome_world_ok]
  by simp

text \<open>
  C4. With a standard output that takes every line: step 5 succeeds exactly when the
  captured standard output of \<open>dbt debug\<close> contains the phrase "All checks passed!" (the
  exit code plays no part). Without the phrase the step fails and prints the captured
  standard output and then the captured standard error. When the executable is not found
  the step fails with a message of its own, different from the one of a failed check.
\<close>

theorem connection_test_by_success_phrase:
  assumes "print_error w = (\<lambda>s. None)"
  shows "(argv_result w [u ''dbt'', u ''debug''] = Inr result \<longrightarrow>
      snd (check_dbt_connection w) = Return (py_in (u ''All checks passed!'') (stdout result))
      \<and> snd (step5 w c) = Return (if py_in (u ''All checks passed!'') (stdout result) then c + 1 else c)
      \<and> (\<not> py_in (u ''All checks passed!'') (stdout result) \<longrightarrow>
           fst (check_dbt_connection w) =
             [Print ([10, 0x1F504, 32] @ u ''Testing dbt database connection...''),
              Subprocess_argv [u ''dbt'', u ''debug''],
              Print ([0x274C, 32] @ u ''dbt connection test failed:''),
              Print (stdout result), Print (stderr result)]))
   \<and> (argv_result w [u ''dbt'', u ''debug''] = Inl (FileNotFoundError m) \<longrightarrow>
        check_dbt_connection w =
          ([Print ([10, 0x1F504, 32] @ u ''Testing dbt database connection...''),
            Subprocess_argv [u ''dbt'', u ''debug''],
            Print ([0x274C, 32] @ u ''dbt command not found. Please install dbt-core and dbt-duckdb'')],
           Return False)
        \<and> snd (step5 w c) = Return c)
   \<and> [0x274C, 32] @ u ''dbt command not found. Please install dbt-core and dbt-duckdb''
        \<noteq> [0x274C, 32] @ u ''dbt connection test failed:''"
proof -
  have s5: "snd (step5 w c) = Return (if snd (check_dbt_connection w) = Return True then c + 1 else c)"
    using step5_value [OF assms, of c] by (simp add: step_outcomes_def)
  have neq: "[0x274C, 32] @ u ''dbt command not found. Please install dbt-core and dbt-duckdb''
        \<noteq> [0x274C, (32::nat)] @ u ''dbt connection test failed:''"
    by (simp add: u_def)
  show ?thesis
    using neq by (simp add: s5 check_dbt_connection_eq [OF assms])
qed

theorem connection_test_by_success_phrase_witness:
  "snd (check_dbt_connection ok_world) = Return True
   \<and> snd (step5 ok_world 4) = Return 5
   \<and> snd (check_dbt_connection debug_fails_world) = Return False
   \<and> fst (check_dbt_connection debug_fails_world) =
        [Print ([10, 0x1F504, 32] @ u ''Testing dbt database connection...''),
         Subprocess_argv [u ''dbt'', u ''debug''],
         Print ([0x274C, 32] @ u ''dbt connection test failed:''),
         Print (u ''1 check failed''), Print (u ''bad profile'')]
   \<and> check_dbt_connection no_dbt_world =
        ([Print ([10, 0x1F504, 32] @ u ''Testing dbt database connection...''),
          Subprocess_argv [u ''dbt'', u ''debug''],
          Print ([0x274C, 32] @ u ''dbt command not found. Please install dbt-core and dbt-duckdb'')],
         Return False)"
proof -
  have p1: "py_in (u ''All checks passed!'') (u ''All checks passed!'')"
    by (simp add: u_def)
  have p2: "\<not> py_in (u ''All checks passed!'') (u ''1 check failed'')"
    by (simp add: u_def)
  show ?thesis
    using connection_test_by_success_phrase
            [OF example_worlds_print(1),
             of "\<lparr>returncode = 0, stdout = u ''All checks passed!'', stderr = []\<rparr>" 4]
          connection_test_by_success_phrase
            [OF example_worlds_print(3),
             of "\<lparr>returncode = 1, stdout = u ''1 check failed'', stderr = u ''bad profile''\<rparr>"]
          connection_test_by_success_phrase
            [OF example_worlds_print(4), of _ _ "u ''No such file or directory: 'dbt' ''"]
    by (simp add: ok_world_def debug_fails_world_def no_dbt_world_def p1 p2)
qed

text \<open>
  C5 fails on a line that holds the marker twice. For the configuration file whose only
  line is \<open>path: a/path:b.duckdb\<close> the text after the marker, stripped, is
  \<open>a/path:b.duckdb\<close>, but the path the check looks for is \<open>a/\<close>: \<open>split\<close> cuts the line
  at every occurrence of the marker and the code takes the second field. On a line with
  one marker, as in the file with the quoted path, the code yields the text after the
  marker, stripped, as C5 says.
\<close>

theorem path_truncated_at_second_marker:
  "profiles_exists two_markers_world = Inr True
   \<and> profiles_read two_markers_world = Inr (u ''path: a/path:b.duckdb'')
   \<and> py_split (u ''path: a/path:b.duckdb'') [10] = [u ''path: a/path:b.duckdb'']
   \<and> has_path_line (u ''path: a/path:b.duckdb'')
   \<and> unquote (after_first (u ''path:'') (u ''path: a/path:b.duckdb'')) = u ''a/path:b.duckdb''
   \<and> resolve_db_file two_markers_world = ([Profiles_exists, Profiles_read], Return (u ''a/''))
   \<and> fst (check_database_file two_markers_world) ! 2 = Os_path_exists (u ''a/'')
   \<and> snd (resolve_db_file two_markers_world)
        \<noteq> Return (unquote (after_first (u ''path:'') (u ''path: a/path:b.duckdb'')))
   \<and> resolve_db_file quoted_path_world
        = ([Profiles_exists, Profiles_read], Return (u ''data/fb.duckdb''))"
proof -
  have l: "py_split (u ''path: a/path:b.duckdb'') [10] = [u ''path: a/path:b.duckdb'']"
    by (simp add: py_split_def u_def)
  have h: "has_path_line (u ''path: a/path:b.duckdb'')"
    by (simp add: has_path_line_def u_def)
  have a: "unquote (after_first (u ''path:'') (u ''path: a/path:b.duckdb'')) = u ''a/path:b.duckdb''"
    by (simp add: unquote_def py_strip_def py_strip_chars_def strip_where_def py_isspace_def
        quote_chars_def u_def)
  have b: "unquote (before_first (u ''path:'') (after_first (u ''path:'') (u ''path: a/path:b.duckdb'')))
             = u ''a/''"
    by (simp add: unquote_def py_strip_def py_strip_chars_def strip_where_def py_isspace_def
        quote_chars_def u_def)
  have e: "profiles_exists two_markers_world = Inr True"
    "profiles_read two_markers_world = Inr (u ''path: a/path:b.duckdb'')"
    by (simp_all add: two_markers_world_def ok_world_def)
  have f: "find has_path_line (py_split (u ''path: a/path:b.duckdb'') [10])
             = Some (u ''path: a/path:b.duckdb'')"
    using h by (simp add: l)
  have r: "resolve_db_file two_markers_world = ([Profiles_exists, Profiles_read], Return (u ''a/''))"
    using resolve_found [OF e f] by (simp only: b)
  have n: "u ''a/'' \<noteq> u ''a/path:b.duckdb''"
    by (simp add: u_def)
  let ?line = "u ''  path: '' @ [39] @ u ''data/fb.duckdb'' @ [39]"
  let ?c = "u ''dev:'' @ [10] @ u ''  type: duckdb'' @ [10] @ ?line @ [10]"
  have qe: "profiles_exists quoted_path_world = Inr True" "profiles_read quoted_path_world = Inr ?c"
    by (simp_all add: quoted_path_world_def ok_world_def)
  have ql: "py_split ?c [10] = [u ''dev:'', u ''  type: duckdb'', ?line, []]"
    by (simp add: py_split_def u_def)
  have qf: "find has_path_line (py_split ?c [10]) = Some ?line"
    by (simp only: ql) (simp add: has_path_line_def u_def)
  have qb: "unquote (before_first (u ''path:'') (after_first (u ''path:'') ?line)) = u ''data/fb.duckdb''"
    by (simp add: unquote_def py_strip_def py_strip_chars_def strip_where_def py_isspace_def
        quote_chars_def u_def)
  have q: "resolve_db_file quoted_path_world
        = ([Profiles_exists, Profiles_read], Return (u ''data/fb.duckdb''))"
    using resolve_found [OF qe qf] by (simp only: qb)
  show ?thesis
    using l h a e r n q check_database_file_looks_for [OF r] by (simp add: numeral_2_eq_2)
qed

text \<open>
  C6. When the existence test answers that the configuration file is absent, or the file
  is read and has no line holding both \<open>path:\<close> and \<open>.duckdb\<close>, or reading it raises, the
  path checked for existence is the default \<open>facebook_pages_pipeline.duckdb\<close>, nothing
  is printed about the scan, and (standard output taking every line) the step succeeds
  exactly when the default file exists. In every environment, and from every starting
  value, the \<open>try\<close> statement of lines 41-52 that reads and scans the file returns
  without an exception and without printing.
\<close>

theorem default_database_file_when_no_path:
  assumes "profiles_exists w = Inr b"
    and "\<not> b
         \<or> (\<exists>c. profiles_read w = Inr c \<and> (\<forall>l\<in>set (py_split c [10]). \<not> has_path_line l))
         \<or> (\<exists>e. profiles_read w = Inl e)"
  shows "snd (resolve_db_file w) = Return (u ''facebook_pages_pipeline.duckdb'')
         \<and> list_all (\<lambda>ev. \<not> is_print ev) (fst (resolve_db_file w))
         \<and> fst (check_database_file w) ! length (fst (resolve_db_file w))
             = Os_path_exists (u ''facebook_pages_pipeline.duckdb'')
         \<and> (print_error w = (\<lambda>s. None) \<longrightarrow>
              snd (check_database_file w) = Return (path_exists w (u ''facebook_pages_pipeline.duckdb'')))
         \<and> (\<forall>v d. \<exists>p. snd (scan_profiles v d) = Return p
                     \<and> list_all (\<lambda>ev. \<not> is_print ev) (fst (scan_profiles v d)))"
proof -
  have d: "snd (resolve_db_file w) = Return default_db_file"
    and q: "list_all (\<lambda>ev. \<not> is_print ev) (fst (resolve_db_file w))"
    using resolve_default [OF assms] by simp_all
  have r: "resolve_db_file w = (fst (resolve_db_file w), Return default_db_file)"
    using d by (metis prod.collapse)
  have n: "\<exists>p. snd (scan_profiles v d) = Return p
               \<and> list_all (\<lambda>ev. \<not> is_print ev) (fst (scan_profiles v d))" for v d
    by (simp add: scan_profiles_eq is_print_def split: sum.splits)
  have c: "print_error w = (\<lambda>s. None) \<longrightarrow>
              snd (check_database_file w) = Return (path_exists w default_db_file)"
    using check_database_file_of [OF _ r] by simp
  show ?thesis
    using d q check_database_file_looks_for [OF r] c n by (simp add: default_db_file_def)
qed

theorem default_database_file_when_no_path_witness:
  "snd (resolve_db_file ok_world) = Return (u ''facebook_pages_pipeline.duckdb'')
   \<and> snd (check_database_file ok_world) = Return True
   \<and> snd (resolve_db_file no_path_world) = Return (u ''facebook_pages_pipeline.duckdb'')
   \<and> snd (check_database_file no_path_world) = Return True
   \<and> snd (resolve_db_file unreadable_world) = Return (u ''facebook_pages_pipeline.duckdb'')
   \<and> snd (check_database_file unreadable_world) = Return True"
proof -
  let ?c = "u ''dev:'' @ [10] @ u ''  type: postgres''"
  have x: "profiles_exists ok_world = Inr False" "profiles_exists no_path_world = Inr True"
    "profiles_exists unreadable_world = Inr True"
    by (simp_all add: ok_world_def no_path_world_def unreadable_world_def)
  have l: "py_split ?c [10] = [u ''dev:'', u ''  type: postgres'']"
    by (simp add: py_split_def u_def)
  have "\<forall>l\<in>set (py_split ?c [10]). \<not> has_path_line l"
    by (simp only: l) (simp add: has_path_line_def u_def)
  then have a2: "\<not> True
                 \<or> (\<exists>c. profiles_read no_path_world = Inr c
                        \<and> (\<forall>l\<in>set (py_split c [10]). \<not> has_path_line l))
                 \<or> (\<exists>e. profiles_read no_path_world = Inl e)"
    by (simp add: no_path_world_def ok_world_def)
  have a3: "\<not> True
            \<or> (\<exists>c. profiles_read unreadable_world = Inr c
                   \<and> (\<forall>l\<in>set (py_split c [10]). \<not> has_path_line l))
            \<or> (\<exists>e. profiles_read unreadable_world = Inl e)"
    by (simp add: unreadable_world_def ok_world_def)
  have a1: "\<not> False
            \<or> (\<exists>c. profiles_read ok_world = Inr c
                   \<and> (\<forall>l\<in>set (py_split c [10]). \<not> has_path_line l))
            \<or> (\<exists>e. profiles_read ok_world = Inl e)"
    by simp
  have p: "path_exists ok_world (u ''facebook_pages_pipeline.duckdb'')"
    "path_exists no_path_world (u ''facebook_pages_pipeline.duckdb'')"
    "path_exists unreadable_world (u ''facebook_pages_pipeline.duckdb'')"
    by (simp_all add: ok_world_def no_path_world_def unreadable_world_def)
  show ?thesis
    using default_database_file_when_no_path [OF x(1) a1]
      default_database_file_when_no_path [OF x(2) a2]
      default_database_file_when_no_path [OF x(3) a3] p example_worlds_print
    by simp
qed

text \<open>
  C7. With a standard output that takes every line: step 1 succeeds exactly when the
  interpreter's version is at least 3.8, that is when the major number exceeds 3, or is 3
  with a minor number of at least 8. Every version 3.7.x fails and every version 3.11.x
  succeeds. On failure the step only reads the version and prints: it runs no command and
  touches no file.
\<close>

theorem environment_check_by_version:
  assumes "print_error w = (\<lambda>s. None)"
  shows "snd (step1 w c) =
     Return (if 3 < major (version_info w) \<or> (major (version_info w) = 3 \<and> 8 \<le> minor (version_info w))
             then c + 1 else c)
   \<and> (major (version_info w) = 3 \<and> minor (version_info w) = 7 \<longrightarrow>
        step1 w c =
          (fst (print_header w (u ''Step 1: Environment Check''))
             @ [Sys_version_info,
                Print (u ''Python version: 3.7.'' @ str_int (micro (version_info w))),
                Print ([0x274C, 32] @ u ''Python 3.8+ required'')],
           Return c))
   \<and> (major (version_info w) = 3 \<and> minor (version_info w) = 11 \<longrightarrow>
        step1 w c =
          (fst (print_header w (u ''Step 1: Environment Check''))
             @ [Sys_version_info,
                Print (u ''Python version: 3.11.'' @ str_int (micro (version_info w))),
                Print ([0x2705, 32] @ u ''Python version is compatible'')],
           Return (c + 1)))
   \<and> (\<not> (3 < major (version_info w) \<or> (major (version_info w) = 3 \<and> 8 \<le> minor (version_info w))) \<longrightarrow>
        list_all (\<lambda>ev. ev = Sys_version_info \<or> is_print ev) (fst (step1 w c))
        \<and> last (fst (step1 w c)) = Print ([0x274C, 32] @ u ''Python 3.8+ required''))"
proof -
  have d: "str_int 3 = u ''3''" "str_int 7 = u ''7''" "str_int 11 = u ''11''"
    by (simp_all add: str_int_def digits.simps u_def)
  have o: "hd (step_outcomes w)
           = (3 < major (version_info w) \<or> (major (version_info w) = 3 \<and> 8 \<le> minor (version_info w)))"
    by (simp only: step_outcomes_def list.sel tuple_ge_3_8)
  show ?thesis
    by (simp add: step1_eq [OF assms] o d print_header_eq [OF assms] is_print_def) (simp add: u_def)
qed

theorem environment_check_by_version_witness:
  "snd (step1 old_python_world 0) = Return 0
   \<and> last (fst (step1 old_python_world 0)) = Print ([0x274C, 32] @ u ''Python 3.8+ required'')
   \<and> snd (step1 ok_world 0) = Return 1
   \<and> last (fst (step1 ok_world 0)) = Print ([0x2705, 32] @ u ''Python version is compatible'')"
  using environment_check_by_version [OF example_worlds_print(2), of 0]
        environment_check_by_version [OF example_worlds_print(1), of 0]
  by (simp add: old_python_world_def ok_world_def)

text \<open>
  C8, as stated, fails for step 4. When reading the configuration file raises an
  exception, the handler of line 51 discards it: no message is printed, and the step goes
  on to test the default file and succeeds when that file exists.
\<close>

theorem exception_in_database_check_counterexample:
  "profiles_exists unreadable_world = Inr True
   \<and> profiles_read unreadable_world = Inl (OtherException (u ''Permission denied''))
   \<and> check_database_file unreadable_world =
       ([Profiles_exists, Profiles_read, Os_path_exists (u ''facebook_pages_pipeline.duckdb''),
         Print ([0x2705, 32] @ u ''Database file found: '' @ u ''facebook_pages_pipeline.duckdb'')],
        Return True)
   \<and> snd (step4 unreadable_world 0) = Return 1"
proof -
  note p = example_worlds_print(9)
  have e: "profiles_exists unreadable_world = Inr True"
    "profiles_read unreadable_world = Inl (OtherException (u ''Permission denied''))"
    "path_exists unreadable_world (u ''facebook_pages_pipeline.duckdb'')"
    by (simp_all add: unreadable_world_def ok_world_def)
  have r: "resolve_db_file unreadable_world
             = ([Profiles_exists, Profiles_read], Return (u ''facebook_pages_pipeline.duckdb''))"
    using e by (simp add: resolve_db_file_eq scan_profiles_eq default_db_file_def)
  have c: "check_database_file unreadable_world =
       ([Profiles_exists, Profiles_read, Os_path_exists (u ''facebook_pages_pipeline.duckdb''),
         Print ([0x2705, 32] @ u ''Database file found: '' @ u ''facebook_pages_pipeline.duckdb'')],
        Return True)"
    using e by (simp add: check_database_file_eq [OF p r])
  have s: "snd (step4 unreadable_world 0) = Return 1"
    using step4_value [OF p e(1), of 0] c by (simp add: step_outcomes_def)
  show ?thesis
    using e c s by simp
qed

text \<open>
  C8, amended. With a standard output that takes every line: an exception raised by the
  command of step 2, 3 or 6 is caught, its message is printed after "Error during ..."
  and the step fails. An exception raised by \<open>dbt debug\<close> in step 5, other than the
  missing executable, is caught, its message is printed after "Error testing dbt
  connection:" and the step fails. An exception raised while reading the configuration
  file in step 4 is caught without any message, and the step continues with the default
  file name, succeeding exactly when that file exists. When moreover the existence test
  of the configuration file answers, no exception leaves \<open>main\<close>.
\<close>

theorem exceptions_are_handled:
  assumes "print_error w = (\<lambda>s. None)"
  shows "(shell_result w command = Inl e \<longrightarrow>
      run_command w command description =
        ([Print ([10, 0x1F504, 32] @ description @ u ''...''), Subprocess_shell command,
          Print ([0x274C, 32] @ u ''Error during '' @ description @ u '': '' @ exn_str e)],
         Return False))
   \<and> (argv_result w [u ''dbt'', u ''debug''] = Inl e
        \<and> (case e of FileNotFoundError _ \<Rightarrow> False | _ \<Rightarrow> True) \<longrightarrow>
      check_dbt_connection w =
        ([Print ([10, 0x1F504, 32] @ u ''Testing dbt database connection...''),
          Subprocess_argv [u ''dbt'', u ''debug''],
          Print ([0x274C, 32] @ u ''Error testing dbt connection: '' @ exn_str e)],
         Return False))
   \<and> (profiles_exists w = Inr True \<and> profiles_read w = Inl e \<longrightarrow>
      resolve_db_file w = ([Profiles_exists, Profiles_read], Return (u ''facebook_pages_pipeline.duckdb''))
      \<and> snd (check_database_file w) = Return (path_exists w (u ''facebook_pages_pipeline.duckdb'')))
   \<and> (profiles_exists w = Inr b \<longrightarrow> snd (main w) = Return ())"
proof -
  note p = assms
  have a: "shell_result w command = Inl e \<longrightarrow>
      run_command w command description =
        ([Print ([10, 0x1F504, 32] @ description @ u ''...''), Subprocess_shell command,
          Print ([0x274C, 32] @ u ''Error during '' @ description @ u '': '' @ exn_str e)],
         Return False)"
    by (simp add: run_command_eq [OF p])
  have b: "argv_result w [u ''dbt'', u ''debug''] = Inl e
        \<and> (case e of FileNotFoundError _ \<Rightarrow> False | _ \<Rightarrow> True) \<longrightarrow>
      check_dbt_connection w =
        ([Print ([10, 0x1F504, 32] @ u ''Testing dbt database connection...''),
          Subprocess_argv [u ''dbt'', u ''debug''],
          Print ([0x274C, 32] @ u ''Error testing dbt connection: '' @ exn_str e)],
         Return False)"
    by (cases e) (simp_all add: check_dbt_connection_eq [OF p])
  have c: "profiles_exists w = Inr True \<and> profiles_read w = Inl e \<longrightarrow>
      resolve_db_file w = ([Profiles_exists, Profiles_read], Return (u ''facebook_pages_pipeline.duckdb''))
      \<and> snd (check_database_file w) = Return (path_exists w (u ''facebook_pages_pipeline.duckdb''))"
  proof
    assume h: "profiles_exists w = Inr True \<and> profiles_read w = Inl e"
    then have r: "resolve_db_file w
                    = ([Profiles_exists, Profiles_read], Return (u ''facebook_pages_pipeline.duckdb''))"
      by (simp add: resolve_db_file_eq scan_profiles_eq default_db_file_def)
    show "resolve_db_file w = ([Profiles_exists, Profiles_read], Return (u ''facebook_pages_pipeline.duckdb''))
      \<and> snd (check_database_file w) = Return (path_exists w (u ''facebook_pages_pipeline.duckdb''))"
      using r check_database_file_of [OF p r] by simp
  qed
  have d: "profiles_exists w = Inr b \<longrightarrow> snd (main w) = Return ()"
    using main_value [OF p] by simp
  show ?thesis
    using a b c d by blast
qed

theorem exceptions_are_handled_witness:
  "run_command deps_raises_world (u ''dbt deps'') (u ''Installing dbt package dependencies'') =
     ([Print ([10, 0x1F504, 32] @ u ''Installing dbt package dependencies'' @ u ''...''),
       Subprocess_shell (u ''dbt deps''),
       Print ([0x274C, 32] @ u ''Error during '' @ u ''Installing dbt package dependencies''
                @ u '': '' @ u ''Resource temporarily unavailable'')],
      Return False)
   \<and> snd (main deps_raises_world) = Return ()
   \<and> snd (check_dbt_connection
             (ok_world\<lparr>argv_result := (\<lambda>a. Inl (OtherException (u ''Exec format error'')))\<rparr>))
        = Return False
   \<and> snd (check_database_file unreadable_world) = Return True"
proof -
  have q: "print_error (ok_world\<lparr>argv_result := (\<lambda>a. Inl (OtherException (u ''Exec format error'')))\<rparr>)
             = (\<lambda>s. None)"
    by (simp add: ok_world_def)
  show ?thesis
    using exceptions_are_handled
            [OF example_worlds_print(11),
             of "u ''dbt deps''" "OtherException (u ''Resource temporarily unavailable'')"
                "u ''Installing dbt package dependencies''" False]
          exceptions_are_handled [OF q, of _ "OtherException (u ''Exec format error'')"]
          exceptions_are_handled
            [OF example_worlds_print(9), of _ "OtherException (u ''Permission denied'')"]
    by (simp add: deps_raises_world_def unreadable_world_def ok_world_def)
qed



text \<open>
  C10. When several lines of the configuration file hold both \<open>path:\<close> and \<open>.duckdb\<close>,
  the first of them in file order gives the path, whatever follows it; with a standard
  output that takes every line, the step succeeds exactly when that path exists. The scan
  looks at the text only: in the example a commented-out line comes first and decides.
\<close>

theorem first_matching_line_wins:
  assumes "profiles_exists w = Inr True" "profiles_read w = Inr c"
    and "py_split c [10] = pre @ line # post"
    and "\<forall>l\<in>set pre. \<not> has_path_line l"
    and "has_path_line line"
  shows "snd (resolve_db_file w)
           = Return (unquote (before_first (u ''path:'') (after_first (u ''path:'') line)))
         \<and> (print_error w = (\<lambda>s. None) \<longrightarrow>
              snd (check_database_file w)
                = Return (path_exists w (unquote (before_first (u ''path:'') (after_first (u ''path:'') line)))))"
proof -
  have f: "find has_path_line (py_split c [10]) = Some line"
    using find_first_of_append [OF assms(4,5)] by (simp only: assms(3))
  show ?thesis
    using resolve_found [OF assms(1,2) f] check_database_file_of [OF _ resolve_found [OF assms(1,2) f]]
    by simp
qed

theorem first_matching_line_wins_witness:
  "snd (resolve_db_file commented_path_world) = Return (u ''old.duckdb'')
   \<and> snd (check_database_file commented_path_world) = Return False"
proof -
  let ?c = "u ''# path: old.duckdb'' @ [10] @ u ''path: new.duckdb''"
  have e: "profiles_exists commented_path_world = Inr True" "profiles_read commented_path_world = Inr ?c"
    by (simp_all add: commented_path_world_def ok_world_def)
  have l: "py_split ?c [10] = [] @ u ''# path: old.duckdb'' # [u ''path: new.duckdb'']"
    by (simp add: py_split_def u_def)
  have n: "\<forall>l\<in>set []. \<not> has_path_line l"
    by simp
  have h: "has_path_line (u ''# path: old.duckdb'')"
    by (simp add: has_path_line_def u_def)
  have b: "unquote (before_first (u ''path:'') (after_first (u ''path:'') (u ''# path: old.duckdb'')))
             = u ''old.duckdb''"
    by (simp add: unquote_def py_strip_def py_strip_chars_def strip_where_def py_isspace_def
        quote_chars_def u_def)
  have p: "\<not> path_exists commented_path_world (u ''old.duckdb'')"
    by (simp add: commented_path_world_def u_def)
  show ?thesis
    using first_matching_line_wins [OF e l n h, unfolded b] p example_worlds_print(7) by simp
qed

end
